theory Spec2Isabelle
  imports Complex_Main "HOL-Library.Signed_Division"
begin

section \<open>Shared declarations\<close>

text \<open>
  The headers \<^verbatim>\<open>primme.h\<close>, \<^verbatim>\<open>primme_svds.h\<close> and \<^verbatim>\<open>const.h\<close> are not among the
  sources. The enumerations below list the enumerators that the two source files name;
  the error constants take the values that the header comments of \<^verbatim>\<open>restart_dprimme\<close>
  (\<^verbatim>\<open>-2 restart_H failed\<close>, \<^verbatim>\<open>-4 factorization of M failed\<close>), of \<^verbatim>\<open>restart_RR\<close>
  (\<^verbatim>\<open>-1 eigenvalues of submatrix could not be computed\<close>) and of \<^verbatim>\<open>zprimme_svds\<close>
  (\<^verbatim>\<open>-1 Failure to allocate workspace\<close>, \<^verbatim>\<open>-2 Malloc failure\<close>) document.

  C \<^verbatim>\<open>int\<close> values are modelled as \<^typ>\<open>int\<close>: they are sizes, indices and small return
  codes, far from the limits of a machine word.
\<close>

datatype flag = UNCONVERGED | CONVERGED | LOCKED

datatype primme_target =
  primme_smallest | primme_largest | primme_closest_geq | primme_closest_leq | primme_closest_abs

datatype primme_restartscheme = primme_thick | primme_dtr

datatype primme_projection = primme_proj_RR | primme_proj_harmonic | primme_proj_refined

datatype primme_svds_target =
  primme_svds_largest | primme_svds_smallest | primme_svds_closest_abs | primme_svds_target_other

datatype primme_svds_operator =
  primme_svds_op_none | primme_svds_op_AtA | primme_svds_op_AAt | primme_svds_op_augmented
  | primme_svds_op_other

definition RESTART_H_FAILURE :: int where
  \<comment> \<open>Modelled from the spec: \<^verbatim>\<open>const.h\<close> is missing; "-2 restart_H failed".\<close>
  "RESTART_H_FAILURE = - 2"

definition UDUDECOMPOSE_FAILURE :: int where
  \<comment> \<open>Modelled from the spec: \<^verbatim>\<open>const.h\<close> is missing; "-4 factorization of M failed".\<close>
  "UDUDECOMPOSE_FAILURE = - 4"

definition INSERT_SUBMATRIX_FAILURE :: int where
  \<comment> \<open>Modelled from the spec: \<^verbatim>\<open>const.h\<close> is missing; "-1 eigenvalues of submatrix could
      not be computed".\<close>
  "INSERT_SUBMATRIX_FAILURE = - 1"

definition ALLOCATE_WORKSPACE_FAILURE :: int where
  \<comment> \<open>Modelled from the spec: \<^verbatim>\<open>const.h\<close> is missing; "-1 Failure to allocate workspace".\<close>
  "ALLOCATE_WORKSPACE_FAILURE = - 1"

definition MALLOC_FAILURE :: int where
  \<comment> \<open>Modelled from the spec: \<^verbatim>\<open>const.h\<close> is missing; "-2 Malloc failure".\<close>
  "MALLOC_FAILURE = - 2"

text \<open>
  \<^verbatim>\<open>primme_params\<close>: the fields that the restart routines and the SVD front end read or
  write. Pointers to target shifts are addresses into a store of arrays (below), so that
  the front end's pointer comparisons keep their meaning; \<open>None\<close> is \<^verbatim>\<open>NULL\<close>.
\<close>

type_synonym addr = nat

record primme_params =
  primme_n :: int
  numEvals :: int
  maxBasisSize :: int
  minRestartSize :: int
  maxBlockSize :: int
  numOrthoConst :: int
  locking :: bool
  scheme :: primme_restartscheme
  projection :: primme_projection
  target :: primme_target
  aNorm :: real
  initSize :: int
  maxMatvecs :: int
  targetShifts :: "addr option"
  numTargetShifts :: int
  stats_numMatvecs :: int

section \<open>The SVD front end (\<^verbatim>\<open>primme_svds_z.c\<close>)\<close>

text \<open>
  Doubles of the front end are modelled as reals: its claims speak of order, of maxima and
  of square roots. The singular vectors, the random seeds, the work arrays and the
  callbacks are data of the numerical kernels and are left out of the state.
\<close>

record primme_svds_params =
  svds_m :: int
  svds_n :: int
  svds_numProcs :: int
  svds_matrixMatvec :: bool
  svds_applyPreconditioner :: bool
  svds_precondition :: int
  svds_globalSumDouble :: bool
  svds_numSvals :: int
  svds_target :: primme_svds_target
  svds_method :: primme_svds_operator
  svds_methodStage2 :: primme_svds_operator
  svds_printLevel :: int
  svds_aNorm :: real
  svds_initSize :: int
  svds_numOrthoConst :: int
  svds_maxMatvecs :: int
  svds_targetShifts :: "addr option"
  svds_numTargetShifts :: int
  svds_stats_numMatvecs :: int
  svds_primme :: primme_params
  svds_primmeStage2 :: primme_params

subsection \<open>Arrays of target shifts\<close>

record shift_store =
  cells :: "addr \<rightharpoonup> real list"
  next_addr :: addr

definition primme_calloc :: "int \<Rightarrow> shift_store \<Rightarrow> addr \<times> shift_store" where
  \<comment> \<open>a fresh, zeroed array of \<open>count\<close> doubles\<close>
  "primme_calloc count s =
     (next_addr s,
      s\<lparr>cells := (cells s)(next_addr s \<mapsto> replicate (nat count) 0),
        next_addr := Suc (next_addr s)\<rparr>)"

definition free_shifts :: "addr option \<Rightarrow> shift_store \<Rightarrow> shift_store" where
  "free_shifts p s = (case p of None \<Rightarrow> s | Some a \<Rightarrow> s\<lparr>cells := (cells s)(a := None)\<rparr>)"

definition shifts_at :: "shift_store \<Rightarrow> addr option \<Rightarrow> real list" where
  \<comment> \<open>the array a pointer designates; reading through \<^verbatim>\<open>NULL\<close> or a freed pointer is
      undefined in C and yields the empty array here\<close>
  "shifts_at s p =
     (case p of None \<Rightarrow> [] | Some a \<Rightarrow> (case cells s a of None \<Rightarrow> [] | Some xs \<Rightarrow> xs))"

definition store_shifts :: "addr option \<Rightarrow> real list \<Rightarrow> shift_store \<Rightarrow> shift_store" where
  "store_shifts p xs s = (case p of None \<Rightarrow> s | Some a \<Rightarrow> s\<lparr>cells := (cells s)(a \<mapsto> xs)\<rparr>)"

subsection \<open>\<^verbatim>\<open>comp_double\<close> and \<^verbatim>\<open>qsort\<close>\<close>

definition comp_double :: "real \<Rightarrow> real \<Rightarrow> int" where
  "comp_double a b = (if a \<le> b then - 1 else 1)"

text \<open>
  \<^verbatim>\<open>qsort\<close> belongs to the C library. It is modelled by insertion under the comparison
  function it is given: an element goes before the first one it compares negative with.
\<close>

fun qsort_insert :: "('a \<Rightarrow> 'a \<Rightarrow> int) \<Rightarrow> 'a \<Rightarrow> 'a list \<Rightarrow> 'a list" where
  "qsort_insert cmp x [] = [x]"
| "qsort_insert cmp x (y # ys) =
     (if cmp x y < 0 then x # y # ys else y # qsort_insert cmp x ys)"

fun qsort :: "('a \<Rightarrow> 'a \<Rightarrow> int) \<Rightarrow> 'a list \<Rightarrow> 'a list" where
  "qsort cmp [] = []"
| "qsort cmp (x # xs) = qsort_insert cmp x (qsort cmp xs)"

subsection \<open>\<^verbatim>\<open>primme_svds_check_input\<close>\<close>

definition primme_svds_check_input ::
  "real list option \<Rightarrow> bool \<Rightarrow> real list option \<Rightarrow> primme_svds_params option \<Rightarrow> int" where
  \<comment> \<open>\<open>svecs\<close> is the non-nullness of the vector argument\<close>
  "primme_svds_check_input svals svecs resNorms primme_svds =
     (case primme_svds of
        None \<Rightarrow> - 4
      | Some ps \<Rightarrow>
          if svds_n ps \<le> 0 \<or> svds_m ps \<le> 0 then - 5
          else if svds_numProcs ps < 1 then - 6
          else if \<not> svds_matrixMatvec ps then - 7
          else if \<not> svds_applyPreconditioner ps \<and> svds_precondition ps = 1 then - 8
          else if svds_numProcs ps > 1 \<and> \<not> svds_globalSumDouble ps then - 9
          else if svds_numSvals ps > min (svds_n ps) (svds_m ps) then - 10
          else if svds_numSvals ps < 1 then - 11
          else if svds_target ps \<noteq> primme_svds_smallest \<and>
                  svds_target ps \<noteq> primme_svds_largest \<and>
                  svds_target ps \<noteq> primme_svds_closest_abs then - 13
          else if svds_method ps \<noteq> primme_svds_op_AtA \<and>
                  svds_method ps \<noteq> primme_svds_op_AAt \<and>
                  svds_method ps \<noteq> primme_svds_op_augmented then - 14
          else if (svds_method ps = primme_svds_op_augmented \<and>
                   svds_methodStage2 ps \<noteq> primme_svds_op_none) \<or>
                  (svds_method ps \<noteq> primme_svds_op_augmented \<and>
                   svds_methodStage2 ps \<noteq> primme_svds_op_augmented \<and>
                   svds_methodStage2 ps \<noteq> primme_svds_op_none) then - 15
          else if svds_printLevel ps < 0 \<or> svds_printLevel ps > 5 then - 16
          else if svals = None then - 17
          else if \<not> svecs then - 18
          else if resNorms = None then - 19
          else 0)"

subsection \<open>\<^verbatim>\<open>allocate_workspace_svds\<close>\<close>

definition allocate_workspace_svds :: "bool \<Rightarrow> bool \<Rightarrow> int" where
  \<comment> \<open>\<open>mem_ok\<close>: both work arrays are available after the allocation attempt; the sizes
      themselves are computed by the eigensolver and are not part of the state\<close>
  "allocate_workspace_svds mem_ok allocate =
     (if \<not> allocate then 1 else if \<not> mem_ok then MALLOC_FAILURE else 0)"

subsection \<open>\<^verbatim>\<open>copy_last_params_from_svds\<close>\<close>

definition stage_params :: "primme_svds_params \<Rightarrow> int \<Rightarrow> primme_params" where
  "stage_params ps stage = (if stage = 0 then svds_primme ps else svds_primmeStage2 ps)"

definition stage_method :: "primme_svds_params \<Rightarrow> int \<Rightarrow> primme_svds_operator" where
  "stage_method ps stage = (if stage = 0 then svds_method ps else svds_methodStage2 ps)"

definition set_stage_params ::
  "primme_svds_params \<Rightarrow> int \<Rightarrow> primme_params \<Rightarrow> primme_svds_params" where
  "set_stage_params ps stage p = (if stage = 0 then ps\<lparr>svds_primme := p\<rparr> else ps\<lparr>svds_primmeStage2 := p\<rparr>)"

definition is_normal_eq :: "primme_svds_operator \<Rightarrow> bool" where
  \<comment> \<open>\<^verbatim>\<open>method == primme_svds_op_AtA || method == primme_svds_op_AAt\<close>\<close>
  "is_normal_eq method = (method = primme_svds_op_AtA \<or> method = primme_svds_op_AAt)"

definition smallest_shifts :: "real \<Rightarrow> primme_svds_params \<Rightarrow> real list \<Rightarrow> real list \<Rightarrow> real list" where
  \<comment> \<open>the two filling loops over the zeroed array, then the sort\<close>
  "smallest_shifts machEps ps svals rnorms =
     (let t0 = replicate (nat (svds_numSvals ps)) (0::real);
          t1 = fold (\<lambda>i t. t[i := max (svals ! i - rnorms ! i) (svds_aNorm ps * machEps)])
                 [0 ..< nat (svds_initSize ps)] t0;
          t2 = fold (\<lambda>i t. t[i := svds_aNorm ps * machEps])
                 [nat (svds_initSize ps) ..< nat (svds_numSvals ps)] t1
      in qsort comp_double t2)"

definition from_svds_aNorm ::
  "primme_svds_params \<Rightarrow> primme_svds_operator \<Rightarrow> primme_params \<Rightarrow> primme_params" where
  \<comment> \<open>\<^verbatim>\<open>if (primme_svds->aNorm > 0.0) switch(method) ...\<close>\<close>
  "from_svds_aNorm ps method p =
     (if svds_aNorm ps > 0 then
        (if is_normal_eq method then p\<lparr>aNorm := svds_aNorm ps * svds_aNorm ps\<rparr>
         else if method = primme_svds_op_augmented then p\<lparr>aNorm := svds_aNorm ps\<rparr>
         else p)
      else p)"

definition from_svds_shifts ::
  "real \<Rightarrow> primme_svds_params \<Rightarrow> int \<Rightarrow> primme_svds_operator \<Rightarrow> real list \<Rightarrow> real list
     \<Rightarrow> primme_params \<Rightarrow> shift_store \<Rightarrow> primme_params \<times> shift_store \<times> bool" where
  \<comment> \<open>the chain of three cases that sets \<^verbatim>\<open>primme->targetShifts\<close>; the boolean is
      \<^verbatim>\<open>*allocatedTargetShifts\<close>\<close>
  "from_svds_shifts machEps ps stage method svals rnorms p store =
     (if (stage = 0 \<and> svds_numTargetShifts ps > 0) \<or>
         (stage = 1 \<and> targetShifts p = None \<and> svds_target ps = primme_svds_closest_abs)
      then
        (if stage = 0 \<and> is_normal_eq method then
           (p\<lparr>targetShifts := svds_targetShifts ps,
              numTargetShifts := svds_numTargetShifts ps\<rparr>,
            store_shifts (svds_targetShifts ps)
              (fold (\<lambda>i t. t[i := t ! i * t ! i]) [0 ..< nat (svds_numTargetShifts ps)]
                 (shifts_at store (svds_targetShifts ps))) store,
            False)
         else
           (p\<lparr>targetShifts := svds_targetShifts ps,
              numTargetShifts := svds_numTargetShifts ps\<rparr>, store, False))
      else if stage = 1 \<and> targetShifts p = None \<and> svds_target ps = primme_svds_smallest then
        (p\<lparr>targetShifts := Some (fst (primme_calloc (svds_numSvals ps) store)),
           numTargetShifts := svds_numSvals ps\<rparr>,
         store_shifts (Some (fst (primme_calloc (svds_numSvals ps) store)))
           (smallest_shifts machEps ps svals rnorms)
           (snd (primme_calloc (svds_numSvals ps) store)),
         True)
      else if method = primme_svds_op_augmented \<and> svds_target ps = primme_svds_smallest \<and>
              targetShifts p = None then
        (p\<lparr>targetShifts := Some (fst (primme_calloc 1 store)), numTargetShifts := 1\<rparr>,
         store_shifts (Some (fst (primme_calloc 1 store))) [0] (snd (primme_calloc 1 store)),
         True)
      else (p, store, False))"

definition from_svds_initial_guess :: "primme_svds_operator \<Rightarrow> primme_params \<Rightarrow> primme_params" where
  \<comment> \<open>\<^verbatim>\<open>if (method == primme_svds_op_augmented && primme->initSize <= 0)\<close>: a random
      vector is drawn (not modelled) and counted\<close>
  "from_svds_initial_guess method p =
     (if method = primme_svds_op_augmented \<and> initSize p \<le> 0 then p\<lparr>initSize := 1\<rparr> else p)"

definition copy_last_params_from_svds ::
  "real \<Rightarrow> primme_svds_params \<Rightarrow> int \<Rightarrow> real list \<Rightarrow> real list \<Rightarrow> shift_store
     \<Rightarrow> primme_svds_params \<times> shift_store \<times> bool" where
  \<comment> \<open>returns the structure, the store and \<^verbatim>\<open>*allocatedTargetShifts\<close>\<close>
  "copy_last_params_from_svds machEps ps stage svals rnorms store =
     (if stage_method ps stage = primme_svds_op_none then
        (set_stage_params ps stage ((stage_params ps stage)\<lparr>maxMatvecs := 1\<rparr>), store, False)
      else
        (case from_svds_shifts machEps ps stage (stage_method ps stage) svals rnorms
                ((from_svds_aNorm ps (stage_method ps stage) (stage_params ps stage))
                   \<lparr>initSize := svds_initSize ps, numOrthoConst := svds_numOrthoConst ps,
                    maxMatvecs := svds_maxMatvecs ps\<rparr>) store of
           (p, store', allocated) \<Rightarrow>
             (set_stage_params ps stage (from_svds_initial_guess (stage_method ps stage) p),
              store', allocated)))"

subsection \<open>\<^verbatim>\<open>copy_last_params_to_svds\<close>\<close>

definition sqrt_svals :: "int \<Rightarrow> real list \<Rightarrow> real list" where
  \<comment> \<open>\<^verbatim>\<open>for (i=0; i<primme->initSize; i++) svals[i] = sqrt(max(0.0, svals[i]));\<close>\<close>
  "sqrt_svals k svals = fold (\<lambda>i sv. sv[i := sqrt (max 0 (sv ! i))]) [0 ..< nat k] svals"

definition to_svds_aNorm ::
  "primme_svds_operator \<Rightarrow> primme_params \<Rightarrow> primme_svds_params \<Rightarrow> primme_svds_params" where
  \<comment> \<open>\<^verbatim>\<open>if (primme->aNorm > 0.0) switch(method) ...\<close>\<close>
  "to_svds_aNorm method p ps =
     (if aNorm p > 0 then
        (if is_normal_eq method then ps\<lparr>svds_aNorm := sqrt (aNorm p)\<rparr>
         else if method = primme_svds_op_augmented then ps\<lparr>svds_aNorm := aNorm p\<rparr>
         else ps)
      else ps)"

definition to_svds_shifts ::
  "int \<Rightarrow> primme_svds_operator \<Rightarrow> primme_params \<Rightarrow> primme_svds_params \<Rightarrow> bool \<Rightarrow> shift_store
     \<Rightarrow> primme_params \<times> shift_store" where
  \<comment> \<open>the user's shifts get their square roots back; an array of the front end is freed\<close>
  "to_svds_shifts stage method p ps allocatedTargetShifts store =
     (let store1 = (if stage = 0 \<and> svds_targetShifts ps = targetShifts p \<and> is_normal_eq method
                    then store_shifts (svds_targetShifts ps)
                           (fold (\<lambda>i t. t[i := sqrt (t ! i)])
                              [0 ..< nat (svds_numTargetShifts ps)]
                              (shifts_at store (svds_targetShifts ps))) store
                    else store)
      in if allocatedTargetShifts
         then (p\<lparr>targetShifts := None\<rparr>, free_shifts (targetShifts p) store1)
         else (p, store1))"

definition min_quotient :: "real \<Rightarrow> real \<Rightarrow> real \<Rightarrow> real" where
  \<comment> \<open>\<^verbatim>\<open>min(r/s, a)\<close> on doubles, \<^verbatim>\<open>min(x, y)\<close> being \<^verbatim>\<open>x < y ? x : y\<close>. For \<open>s = 0\<close>
      and \<open>r \<ge> 0\<close> the quotient is \<open>+inf\<close> or not a number; neither is below \<open>a\<close>, so
      the value is \<open>a\<close>. For \<open>s = 0\<close> and \<open>r < 0\<close> the double is \<open>-inf\<close>, which no real
      stands for: a residual norm is not negative, and the quotient of the reals is kept
      there.\<close>
  "min_quotient r s a = (if s = 0 \<and> 0 \<le> r then a else min (r / s) a)"

definition to_svds_rnorms ::
  "primme_svds_operator \<Rightarrow> primme_svds_params \<Rightarrow> real list \<Rightarrow> real list \<Rightarrow> real list" where
  \<comment> \<open>\<^verbatim>\<open>if (primme_svds->methodStage2 != primme_svds_op_none) switch(method) ...\<close>\<close>
  "to_svds_rnorms method ps svals rnorms =
     (if svds_methodStage2 ps \<noteq> primme_svds_op_none then
        (if is_normal_eq method then
           fold (\<lambda>i r. r[i := min_quotient (r ! i) (svals ! i) (svds_aNorm ps)])
             [0 ..< nat (svds_initSize ps)] rnorms
         else if method = primme_svds_op_augmented then
           fold (\<lambda>i r. r[i := r ! i * sqrt 2]) [0 ..< nat (svds_initSize ps)] rnorms
         else rnorms)
      else rnorms)"

definition to_svds_counts ::
  "primme_svds_operator \<Rightarrow> primme_params \<Rightarrow> primme_svds_params \<Rightarrow> primme_svds_params" where
  \<comment> \<open>statistics, norm estimate, number of converged triplets, matrix-vector budget\<close>
  "to_svds_counts method p ps =
     (to_svds_aNorm method p
        (ps\<lparr>svds_stats_numMatvecs := svds_stats_numMatvecs ps + stats_numMatvecs p\<rparr>))
      \<lparr>svds_initSize := initSize p, svds_maxMatvecs := svds_maxMatvecs ps - stats_numMatvecs p\<rparr>"

definition copy_last_params_to_svds ::
  "primme_svds_params \<Rightarrow> int \<Rightarrow> real list \<Rightarrow> real list \<Rightarrow> bool \<Rightarrow> shift_store
     \<Rightarrow> real list \<times> real list \<times> primme_svds_params \<times> shift_store" where
  \<comment> \<open>returns \<open>svals\<close>, \<open>rnorms\<close>, the structure and the store\<close>
  "copy_last_params_to_svds ps stage svals rnorms allocatedTargetShifts store =
     (if stage_method ps stage = primme_svds_op_none then
        (svals, rnorms,
         set_stage_params ps stage ((stage_params ps stage)\<lparr>maxMatvecs := 1\<rparr>), store)
      else
        (case to_svds_shifts stage (stage_method ps stage) (stage_params ps stage)
                (to_svds_counts (stage_method ps stage) (stage_params ps stage) ps)
                allocatedTargetShifts store of
           (p1, store1) \<Rightarrow>
             ((if is_normal_eq (stage_method ps stage)
               then sqrt_svals (initSize (stage_params ps stage)) svals else svals),
              to_svds_rnorms (stage_method ps stage)
                (to_svds_counts (stage_method ps stage) (stage_params ps stage) ps)
                (if is_normal_eq (stage_method ps stage)
                 then sqrt_svals (initSize (stage_params ps stage)) svals else svals)
                rnorms,
              set_stage_params
                (to_svds_counts (stage_method ps stage) (stage_params ps stage) ps) stage p1,
              store1)))"

subsection \<open>\<^verbatim>\<open>zprimme_svds\<close>\<close>

text \<open>
  The eigensolver \<^verbatim>\<open>zprimme\<close> is not among the sources. It enters as a parameter: from the
  structure of a stage, the store and the two arrays it yields its return code, the arrays
  it has written and the structure it has updated.
\<close>

type_synonym eigensolver =
  "primme_params \<Rightarrow> shift_store \<Rightarrow> real list \<Rightarrow> real list
     \<Rightarrow> int \<times> real list \<times> real list \<times> primme_params"

type_synonym svds_state = "real list \<times> real list \<times> primme_svds_params \<times> shift_store"

definition svds_stage :: "eigensolver \<Rightarrow> real \<Rightarrow> int \<Rightarrow> svds_state \<Rightarrow> int \<times> svds_state" where
  \<comment> \<open>the three calls of one stage: parameters in, eigensolver, parameters out\<close>
  "svds_stage zprimme machEps stage s =
     (case s of (svals, resNorms, ps, store) \<Rightarrow>
        (case copy_last_params_from_svds machEps ps stage svals resNorms store of
           (ps1, store1, allocated) \<Rightarrow>
             (case zprimme (stage_params ps1 stage) store1 svals resNorms of
                (ret, svals1, resNorms1, p1) \<Rightarrow>
                  (ret, copy_last_params_to_svds (set_stage_params ps1 stage p1) stage
                          svals1 resNorms1 allocated store1))))"

definition zprimme_svds ::
  "eigensolver \<Rightarrow> real \<Rightarrow> bool \<Rightarrow> real list option \<Rightarrow> bool \<Rightarrow> real list option
     \<Rightarrow> primme_svds_params \<Rightarrow> shift_store \<Rightarrow> int \<times> svds_state option" where
  \<comment> \<open>\<open>primme_svds\<close> is the structure after \<^verbatim>\<open>primme_svds_set_defaults\<close>; the state is
      returned once the stages have begun\<close>
  "zprimme_svds zprimme machEps mem_ok svals svecs resNorms primme_svds store =
     (if svals = None \<and> \<not> svecs \<and> resNorms = None then
        (allocate_workspace_svds mem_ok False, None)
      else
        let ret = primme_svds_check_input svals svecs resNorms (Some primme_svds) in
        if ret \<noteq> 0 then (ret, None)
        else if allocate_workspace_svds mem_ok True \<noteq> 0 then (ALLOCATE_WORKSPACE_FAILURE, None)
        else
          (case svds_stage zprimme machEps 0 (the svals, the resNorms, primme_svds, store) of
             (ret1, s1) \<Rightarrow>
               if ret1 \<noteq> 0 then (ret1 - 100, Some s1)
               else if svds_methodStage2 (fst (snd (snd s1))) = primme_svds_op_none
               then (0, Some s1)
               else
                 (case svds_stage zprimme machEps 1 s1 of
                    (ret2, s2) \<Rightarrow>
                      if ret2 \<noteq> 0 then (ret2 - 200, Some s2) else (0, Some s2))))"

section \<open>The restart routines (\<^verbatim>\<open>restart_d.c\<close>)\<close>

text \<open>
  What the restart routines do to doubles is to move them, compare them and hand them to
  numerical kernels. Their model is therefore polymorphic in the type of scalars, which
  only has to carry the operations the source applies; the square root and the conversion
  from \<^verbatim>\<open>int\<close> are parameters. Every theorem then holds whatever the arithmetic of the
  scalars is.

  The routines are modelled as they run with \<^verbatim>\<open>V != NULL\<close>; the workspace query taken
  with \<^verbatim>\<open>V == NULL\<close> returns a size and touches nothing. The diagnostic prints are
  left out. An assertion that fails ends the program: a routine that asserts yields
  \<open>None\<close> there, and \<open>Some\<close> of what it returns otherwise.

  Arrays are lists, indexed by C integers. An access outside an array is undefined in C;
  here such a write is dropped, and nothing is proved from such a read.
\<close>

record 'a fpu =
  fp_sqrt :: "'a \<Rightarrow> 'a"
  fp_of_int :: "int \<Rightarrow> 'a"

definition rd :: "'a list \<Rightarrow> int \<Rightarrow> 'a" where
  "rd xs i = xs ! nat i"

definition wr :: "'a list \<Rightarrow> int \<Rightarrow> 'a \<Rightarrow> 'a list" where
  "wr xs i v = (if 0 \<le> i then xs[nat i := v] else xs)"

definition int_range :: "int \<Rightarrow> int \<Rightarrow> int list" where
  \<comment> \<open>the values of \<open>x\<close> in \<^verbatim>\<open>for (x = a; x < b; x++)\<close>\<close>
  "int_range a b = map (\<lambda>k. a + int k) [0 ..< nat (b - a)]"

subsection \<open>Kernels outside the source\<close>

definition permute_vecs_dprimme ::
  "'a list \<Rightarrow> int \<Rightarrow> int \<Rightarrow> int \<Rightarrow> (nat \<Rightarrow> int) \<Rightarrow> 'a list" where
  \<comment> \<open>Modelled from the spec: \<^verbatim>\<open>permute_vecs_dprimme\<close> is not in the source. "Permute
      hVals and hVecs by restartPerm": column \<open>i\<close> of the result is column \<open>perm i\<close> of
      the argument (\<open>m\<close> rows, \<open>n\<close> columns, leading dimension \<open>ld\<close>), which is how
      \<^verbatim>\<open>restartPerm[left + j] = i\<close> places candidate \<open>i\<close> in slot \<open>left + j\<close>.\<close>
  "permute_vecs_dprimme vecs m n ld perm =
     fold (\<lambda>i out.
             fold (\<lambda>r out. wr out (ld * int i + int r) (rd vecs (ld * perm i + int r)))
               [0 ..< nat m] out)
       [0 ..< nat n] vecs"

definition Num_copy_matrix_dprimme ::
  "'a list \<Rightarrow> int \<Rightarrow> int \<Rightarrow> int \<Rightarrow> int \<Rightarrow> 'a list \<Rightarrow> int \<Rightarrow> int \<Rightarrow> 'a list" where
  \<comment> \<open>Modelled from the spec: \<^verbatim>\<open>Num_copy_matrix_dprimme\<close> is not in the source. "Copy
      previousHVecs into hVecs[:, indexOfPreviousVecs : ...]": the \<open>m\<close> by \<open>n\<close> matrix at
      offset \<open>xoff\<close> of \<open>x\<close> is copied to offset \<open>yoff\<close> of \<open>y\<close>.\<close>
  "Num_copy_matrix_dprimme x xoff m n ldx y yoff ldy =
     fold (\<lambda>j y.
             fold (\<lambda>i y. wr y (yoff + ldy * int j + int i) (rd x (xoff + ldx * int j + int i)))
               [0 ..< nat m] y)
       [0 ..< nat n] y"

text \<open>
  The remaining kernels (orthogonalisation, the update of \<open>V\<close> and \<open>W\<close>, the projected
  product \<open>X\<^sup>H H X\<close>, the dense eigensolver, the factorisation of \<open>M\<close>) and the routines
  that consist of such kernels (\<^verbatim>\<open>restart_qr\<close>, and \<^verbatim>\<open>restart_locking_dprimme\<close> of
  \<^verbatim>\<open>locking_d.c\<close>) are parameters. Each takes the arrays of the state it is handed
  pointers into, with the offsets and sizes of the call, and yields its return code and
  those arrays as it leaves them. The bases \<open>V\<close>, \<open>W\<close>, \<open>Q\<close>, \<open>R\<close>, \<open>QV\<close>, \<open>hU\<close>, the
  locked vectors and \<open>M\<close> are touched by kernels only and are not part of the state.
\<close>

record 'a restart_state =
  st_flags :: "flag list"
  st_hVals :: "'a list"
  st_hVecs :: "'a list"
  st_H :: "'a list"
  st_prevRitzVals :: "'a list"
  st_numPrevRitzVals :: int
  st_iwork :: "int list"
  st_iev :: "int list"
  st_ievSize :: int
  st_numConverged :: int
  st_numLocked :: int
  st_numConvergedStored :: int
  st_numPrevRetained :: int
  st_restartSizeOutput :: int

record 'a kernels =
  k_ortho :: "'a list \<Rightarrow> int \<Rightarrow> int \<Rightarrow> int \<Rightarrow> int \<Rightarrow> int \<Rightarrow> int \<Rightarrow> int \<times> 'a list"
    \<comment> \<open>\<^verbatim>\<open>ortho_dprimme\<close> on \<open>hVecs\<close>: array, leading dimension, \<open>b1\<close>, \<open>b2\<close>, offset and
        number of the columns to stay orthogonal to, number of rows\<close>
  k_harmonic_coefficients :: "'a list \<Rightarrow> int \<Rightarrow> int \<Rightarrow> int \<Rightarrow> int \<Rightarrow> int \<Rightarrow> int \<times> 'a list"
    \<comment> \<open>the steps on \<open>hU\<close> and \<open>R\<close> that \<^verbatim>\<open>ortho_coefficient_vectors_dprimme\<close> takes
        first under harmonic projection\<close>
  k_update_VWXR :: int
    \<comment> \<open>return code of \<^verbatim>\<open>Num_update_VWXR_dprimme\<close> in the soft-locking restart\<close>
  k_compute_submatrix ::
    "'a list \<Rightarrow> int \<Rightarrow> int \<Rightarrow> int \<Rightarrow> 'a list \<Rightarrow> int \<Rightarrow> int \<Rightarrow> int \<Rightarrow> int \<Rightarrow> 'a list"
    \<comment> \<open>\<open>X\<close>, its offset, number of columns and leading dimension; \<open>H\<close>, its size and
        leading dimension; offset and leading dimension of the result inside \<open>H\<close>\<close>
  k_solve_H ::
    "'a list \<Rightarrow> int \<Rightarrow> int \<Rightarrow> int \<Rightarrow> 'a list \<Rightarrow> int \<Rightarrow> int \<Rightarrow> 'a list \<Rightarrow> int
       \<Rightarrow> int \<times> 'a list \<times> 'a list"
    \<comment> \<open>\<open>H\<close>, offset, size and leading dimension of the block; \<open>hVecs\<close>, offset and
        leading dimension; \<open>hVals\<close> and offset; yields code, \<open>hVecs\<close> and \<open>hVals\<close>\<close>
  k_restart_qr ::
    "'a restart_state \<Rightarrow> int \<Rightarrow> int \<Rightarrow> int \<Rightarrow> int \<Rightarrow> (int \<times> 'a restart_state) option"
    \<comment> \<open>\<^verbatim>\<open>restart_qr\<close>: state, \<open>restartSize\<close>, \<open>basisSize\<close>, \<open>numPrevRetained\<close>,
        \<open>indexOfPreviousVecs\<close>; \<open>None\<close> when one of its assertions fails\<close>
  k_UDUDecompose :: int
    \<comment> \<open>return code of \<^verbatim>\<open>UDUDecompose_dprimme\<close>\<close>
  k_restart_locking ::
    "int \<Rightarrow> int \<Rightarrow> int \<Rightarrow> 'a restart_state \<Rightarrow> int \<times> int \<times> int \<times> int \<times> 'a restart_state"
    \<comment> \<open>\<^verbatim>\<open>restart_locking_dprimme\<close>: \<open>restartSize\<close>, \<open>basisSize\<close>, \<open>numArbitraryVecs\<close>,
        state; yields code, \<open>restartSize\<close>, \<open>indexOfPreviousVecs\<close>, \<open>numArbitraryVecs\<close>
        and the state\<close>

subsection \<open>\<^verbatim>\<open>reset_flags_dprimme\<close>\<close>

definition reset_flags_dprimme :: "flag list \<Rightarrow> int \<Rightarrow> int \<Rightarrow> flag list" where
  \<comment> \<open>\<^verbatim>\<open>for (i = 0; i <= last; i++) flags[i] = UNCONVERGED;\<close>\<close>
  "reset_flags_dprimme flags first lastIndex =
     fold (\<lambda>i fl. fl[i := UNCONVERGED]) [0 ..< nat (lastIndex + 1)] flags"

subsection \<open>\<^verbatim>\<open>dtr_dprimme\<close>\<close>

definition dtr_lMin :: "primme_params \<Rightarrow> int \<Rightarrow> flag list \<Rightarrow> int \<Rightarrow> int" where
  "dtr_lMin primme numLocked flags basisSize =
     (if locking primme then
        max (fold (\<lambda>l lMin. if flags ! l \<noteq> UNCONVERGED \<and> numLocked + int l < numEvals primme
                             then int l else lMin)
               [0 ..< nat basisSize] 0)
            (min basisSize (minRestartSize primme))
      else min basisSize (minRestartSize primme))"

definition dtr_newVal ::
  "('a::{minus,times,inverse}) fpu \<Rightarrow> 'a list \<Rightarrow> 'a \<Rightarrow> int \<Rightarrow> int \<Rightarrow> int \<Rightarrow> 'a" where
  "dtr_newVal fp hVals currentRitzVal basisSize l r =
     fp_of_int fp (basisSize - l - r) *
       fp_sqrt fp ((currentRitzVal - rd hVals (l + 1)) /
                   (rd hVals (l + 1) - rd hVals (basisSize - 1 - r)))"

definition dtr_step ::
  "('a::{minus,times,inverse,ord}) fpu \<Rightarrow> primme_params \<Rightarrow> 'a list \<Rightarrow> 'a \<Rightarrow> int \<Rightarrow> int \<Rightarrow> int
     \<Rightarrow> 'a \<times> int \<times> int \<Rightarrow> 'a \<times> int \<times> int" where
  \<comment> \<open>the body of the inner loop on \<open>(optVal, lOpt, rOpt)\<close>\<close>
  "dtr_step fp primme hVals currentRitzVal basisSize l r opt =
     (if (basisSize - l - r) smod maxBlockSize primme = 0 then
        (if dtr_newVal fp hVals currentRitzVal basisSize l r > fst opt
         then (dtr_newVal fp hVals currentRitzVal basisSize l r, l, r)
         else opt)
      else opt)"

definition dtr_search ::
  "('a::{zero,minus,times,inverse,ord}) fpu \<Rightarrow> primme_params \<Rightarrow> 'a list \<Rightarrow> 'a \<Rightarrow> int \<Rightarrow> int
     \<Rightarrow> int \<Rightarrow> 'a \<times> int \<times> int" where
  \<comment> \<open>the two nested loops; yields \<open>(optVal, lOpt, rOpt)\<close>\<close>
  "dtr_search fp primme hVals currentRitzVal basisSize numFree lMin =
     fold (\<lambda>l opt.
             fold (\<lambda>r opt. dtr_step fp primme hVals currentRitzVal basisSize l r opt)
               (int_range 0 (basisSize - l - numFree)) opt)
       (int_range lMin (basisSize - numFree)) (0, lMin, 0)"

definition move_right_block :: "'a list \<Rightarrow> int \<Rightarrow> int \<Rightarrow> int \<Rightarrow> int \<Rightarrow> 'a list" where
  \<comment> \<open>the three \<^verbatim>\<open>Num_dcopy\<close> calls that bring the \<open>rOpt\<close> rightmost blocks of \<open>w\<close>
      scalars next to the \<open>lOpt\<close> leftmost ones; the first copy fills \<^verbatim>\<open>rwork\<close>\<close>
  "move_right_block xs w basisSize lOpt rOpt =
     (let restartSize = lOpt + rOpt;
          i = basisSize - restartSize;
          rwork = map (\<lambda>k. rd xs (w * lOpt + int k)) [0 ..< nat (i * w)];
          xs1 = fold (\<lambda>k ys. wr ys (w * lOpt + int k) (rd ys (w * (basisSize - rOpt) + int k)))
                  [0 ..< nat (rOpt * w)] xs
      in fold (\<lambda>k ys. wr ys (w * restartSize + int k) (rwork ! k)) [0 ..< nat (i * w)] xs1)"

definition dtr_copy_flags :: "flag list \<Rightarrow> int \<Rightarrow> int \<Rightarrow> int \<Rightarrow> flag list" where
  \<comment> \<open>\<^verbatim>\<open>for (i = 0; i < rOpt; i++) flags[lOpt + i] = flags[basisSize-rOpt + i];\<close>\<close>
  "dtr_copy_flags flags basisSize lOpt rOpt =
     fold (\<lambda>i fl. wr fl (lOpt + int i) (rd fl (basisSize - rOpt + int i))) [0 ..< nat rOpt] flags"

definition dtr_dprimme ::
  "('a::{zero,minus,times,inverse,ord}) fpu \<Rightarrow> int \<Rightarrow> 'a list \<Rightarrow> 'a list \<Rightarrow> flag list \<Rightarrow> int
     \<Rightarrow> int \<Rightarrow> int list \<Rightarrow> primme_params \<Rightarrow> int \<times> 'a list \<times> 'a list \<times> flag list" where
  \<comment> \<open>yields the restart size, \<open>hVecs\<close>, \<open>hVals\<close> and \<open>flags\<close>\<close>
  "dtr_dprimme fp numLocked hVecs hVals flags basisSize numFree iev primme =
     (case dtr_search fp primme hVals (rd hVals (rd iev 0)) basisSize numFree
             (dtr_lMin primme numLocked flags basisSize) of
        (optVal, lOpt, rOpt) \<Rightarrow>
          (lOpt + rOpt,
           move_right_block hVecs basisSize basisSize lOpt rOpt,
           move_right_block hVals 1 basisSize lOpt rOpt,
           reset_flags_dprimme (dtr_copy_flags flags basisSize lOpt rOpt) (lOpt + rOpt)
             (maxBasisSize primme)))"

subsection \<open>\<^verbatim>\<open>ortho_coefficient_vectors_dprimme\<close>\<close>

definition ortho_coefficient_vectors_dprimme ::
  "'a kernels \<Rightarrow> primme_params \<Rightarrow> 'a list \<Rightarrow> int \<Rightarrow> int \<Rightarrow> int \<Rightarrow> int \<Rightarrow> int \<Rightarrow> int \<times> 'a list" where
  "ortho_coefficient_vectors_dprimme K primme hVecs basisSize ldhVecs indexOfPreviousVecs
       newBasisSize numPrevRetained =
     (if projection primme = primme_proj_harmonic then
        (case k_harmonic_coefficients K hVecs basisSize ldhVecs indexOfPreviousVecs newBasisSize
                numPrevRetained of
           (ret, hVecs1) \<Rightarrow>
             if ret \<noteq> 0 then (ret, hVecs)
             else k_ortho K hVecs1 ldhVecs indexOfPreviousVecs
                    (indexOfPreviousVecs + numPrevRetained - 1)
                    (ldhVecs * (indexOfPreviousVecs + numPrevRetained))
                    (newBasisSize - indexOfPreviousVecs - numPrevRetained) basisSize)
      else k_ortho K hVecs ldhVecs indexOfPreviousVecs
             (indexOfPreviousVecs + numPrevRetained - 1)
             (ldhVecs * (indexOfPreviousVecs + numPrevRetained))
             (newBasisSize - indexOfPreviousVecs - numPrevRetained) basisSize)"

subsection \<open>\<^verbatim>\<open>restart_soft_locking_dprimme\<close>\<close>

definition recheck_converged_flags ::
  "primme_params \<Rightarrow> int \<Rightarrow> flag list \<Rightarrow> ('a::{minus,abs,ord}) list \<Rightarrow> 'a list \<Rightarrow> 'a list
     \<Rightarrow> flag list" where
  \<comment> \<open>the first statement of the routine\<close>
  "recheck_converged_flags primme basisSize flags hVals evals resNorms =
     (if basisSize + numOrthoConst primme < primme_n primme then
        fold (\<lambda>i fl. if fl ! i \<noteq> UNCONVERGED \<and> \<bar>hVals ! i - evals ! i\<bar> > resNorms ! i
                     then fl[i := UNCONVERGED] else fl)
          [0 ..< nat (numEvals primme)] flags
      else flags)"

record soft_locking_layout =
  sl_numPrevRetained :: int
  sl_restartSize :: int
  sl_ievSize :: int
  sl_numCandidates :: int
  sl_indexOfPreviousVecs :: int
  sl_left :: int

definition soft_locking_layout ::
  "primme_params \<Rightarrow> int \<Rightarrow> int \<Rightarrow> int \<Rightarrow> int \<Rightarrow> flag list \<Rightarrow> soft_locking_layout" where
  \<comment> \<open>the sizes fixed before the permutation is built, from \<^verbatim>\<open>*restartSize\<close>,
      \<^verbatim>\<open>*numPrevRetained\<close> and \<^verbatim>\<open>*numConverged\<close> on entry\<close>
  "soft_locking_layout primme restartSize numPrevRetained numConverged numArbitraryVecs flags =
     (let npr = min (maxBasisSize primme) (restartSize + numPrevRetained) - restartSize;
          numCandidates0 = fold (\<lambda>i c. if flags ! i = UNCONVERGED then c + 1 else c)
                             [0 ..< nat (min numArbitraryVecs restartSize)] (0::int);
          restartSize1 = restartSize + npr;
          ievSize = min (min (maxBlockSize primme) (numEvals primme - numConverged + 1))
                        (maxBasisSize primme - restartSize1);
          numCandidates = max ievSize numCandidates0
      in \<lparr>sl_numPrevRetained = npr, sl_restartSize = restartSize1, sl_ievSize = ievSize,
          sl_numCandidates = numCandidates,
          sl_indexOfPreviousVecs = restartSize1 - numCandidates - npr,
          sl_left = restartSize1 - numCandidates\<rparr>)"

definition build_restartPerm ::
  "int \<Rightarrow> int \<Rightarrow> int \<Rightarrow> flag list \<Rightarrow> int list \<Rightarrow> int \<Rightarrow> int list" where
  \<comment> \<open>the sweep with the counters \<open>j\<close> and \<open>k\<close>; \<open>rp\<close> is where \<^verbatim>\<open>restartPerm\<close> starts
      in the integer workspace\<close>
  "build_restartPerm basisSize numCandidates left flags iwork rp =
     snd (snd (fold (\<lambda>i (j, k, iw).
                  if j < numCandidates \<and> flags ! i = UNCONVERGED
                  then (j + 1, k, wr iw (rp + left + j) (int i))
                  else if k < left then (j, k + 1, wr iw (rp + k) (int i))
                  else (j, k + 1, wr iw (rp + numCandidates + k) (int i)))
            [0 ..< nat basisSize] (0, 0, iwork)))"

definition count_converged :: "primme_params \<Rightarrow> int \<Rightarrow> flag list \<Rightarrow> int" where
  \<comment> \<open>\<^verbatim>\<open>for (i=*numConverged=0; i<basisSize; i++) if (...) (*numConverged)++;\<close>\<close>
  "count_converged primme basisSize flags =
     fold (\<lambda>i c. if flags ! i \<noteq> UNCONVERGED \<and> int i < numEvals primme then c + 1 else c)
       [0 ..< nat basisSize] 0"

definition build_hVecsPerm :: "int \<Rightarrow> int \<Rightarrow> soft_locking_layout \<Rightarrow> int list \<Rightarrow> int \<Rightarrow> int \<Rightarrow> int list" where
  \<comment> \<open>the inverse of \<^verbatim>\<open>restartPerm\<close>, then the shift of the arbitrary vectors. The loop
      that counts them into \<open>j\<close> is followed by \<^verbatim>\<open>for (i=j=0; ...)\<close>, so the shift runs
      with \<open>j = 0\<close>.\<close>
  "build_hVecsPerm basisSize j lay iwork rp hp =
     (let iw1 = fold (\<lambda>i iw. wr iw (hp + rd iw (rp + int i)) (int i)) [0 ..< nat basisSize] iwork
      in fold (\<lambda>i iw.
                 if sl_indexOfPreviousVecs lay \<le> rd iw (hp + int i) \<and>
                    rd iw (hp + int i) < sl_left lay + j
                 then wr iw (hp + int i)
                        ((rd iw (hp + int i) - sl_indexOfPreviousVecs lay + j)
                           smod (sl_numPrevRetained lay + j) + sl_indexOfPreviousVecs lay)
                 else iw)
           [0 ..< nat (sl_restartSize lay)] iw1)"

definition pack_converged :: "int \<Rightarrow> int \<Rightarrow> int list \<Rightarrow> int \<Rightarrow> int" where
  \<comment> \<open>\<open>newNumConvergedStored\<close>: the number of iterations of
      \<^verbatim>\<open>for (i=0; i < *numConverged && restartPerm[i] < *numConvergedStored; i++)\<close>\<close>
  "pack_converged numConverged numConvergedStored iwork rp =
     int (length (takeWhile (\<lambda>i. rd iwork (rp + int i) < numConvergedStored)
                    [0 ..< nat numConverged]))"

definition soft_locking_select ::
  "primme_params \<Rightarrow> int \<Rightarrow> int \<Rightarrow> int \<Rightarrow> ('a::{minus,abs,ord}) list \<Rightarrow> 'a list \<Rightarrow> 'a list \<Rightarrow> int
     \<Rightarrow> int \<Rightarrow> int \<Rightarrow> 'a restart_state \<Rightarrow> soft_locking_layout \<times> 'a restart_state" where
  \<comment> \<open>from the entry of the routine to the copy of \<^verbatim>\<open>previousHVecs\<close>\<close>
  "soft_locking_select primme restartSize basisSize ldhVecs evals resNorms previousHVecs
       ldpreviousHVecs numArbitraryVecs rp st =
     (let flags1 = recheck_converged_flags primme basisSize (st_flags st) (st_hVals st) evals
                     resNorms;
          lay = soft_locking_layout primme restartSize (st_numPrevRetained st)
                  (st_numConverged st) numArbitraryVecs flags1;
          iw = build_restartPerm basisSize (sl_numCandidates lay) (sl_left lay) flags1
                 (st_iwork st) rp;
          hVals1 = permute_vecs_dprimme (st_hVals st) 1 basisSize 1 (\<lambda>i. rd iw (rp + int i));
          hVecs1 = permute_vecs_dprimme (st_hVecs st) basisSize basisSize ldhVecs
                     (\<lambda>i. rd iw (rp + int i));
          hVecs2 = Num_copy_matrix_dprimme previousHVecs 0 basisSize (sl_numPrevRetained lay)
                     ldpreviousHVecs hVecs1 (ldhVecs * sl_indexOfPreviousVecs lay) ldhVecs
      in (lay,
          st\<lparr>st_flags := flags1, st_numPrevRetained := sl_numPrevRetained lay,
             st_ievSize := sl_ievSize lay, st_iwork := iw,
             st_numConverged := count_converged primme basisSize flags1,
             st_hVals := hVals1, st_hVecs := hVecs2\<rparr>))"

definition candidates_in_place :: "int \<Rightarrow> flag list \<Rightarrow> int list \<Rightarrow> int \<Rightarrow> bool" where
  \<comment> \<open>\<^verbatim>\<open>for (i=j=0; j<*ievSize && i<basisSize; i++)
        if (flags[i] == UNCONVERGED) { assert(iev[j] == i); j++; }\<close>:
      whether every assertion of the loop holds\<close>
  "candidates_in_place basisSize flags iev ievSize =
     snd (fold (\<lambda>i (j, ok). if j < ievSize \<and> flags ! i = UNCONVERGED
                              then (j + 1, ok \<and> rd iev j = int i) else (j, ok))
            [0 ..< nat basisSize] (0, True))"

definition soft_locking_finish ::
  "int \<Rightarrow> bool \<Rightarrow> int \<Rightarrow> int \<Rightarrow> soft_locking_layout \<Rightarrow> 'a restart_state
     \<Rightarrow> 'a restart_state option" where
  \<comment> \<open>from the construction of \<^verbatim>\<open>hVecsPerm\<close> to the end of the routine; \<open>None\<close> when
      a candidate is not where \<^verbatim>\<open>assert(iev[j] == i)\<close> expects it\<close>
  "soft_locking_finish basisSize evecsHat rp hp lay st =
     (let j = 0;
          iw = build_hVecsPerm basisSize j lay (st_iwork st) rp hp;
          iev1 = fold (\<lambda>i iev. wr iev (int i) (rd iw (rp + sl_left lay + int i)))
                   [0 ..< nat (st_ievSize st)] (st_iev st);
          st1 = st\<lparr>st_iwork := iw, st_numPrevRetained := st_numPrevRetained st + j,
                   st_iev := iev1, st_ievSize := 0\<rparr>
      in if \<not> candidates_in_place basisSize (st_flags st) iev1 (st_ievSize st) then None
         else if evecsHat
         then Some (st1\<lparr>st_numConvergedStored :=
                          pack_converged (st_numConverged st1) (st_numConvergedStored st1) iw rp\<rparr>)
         else Some st1)"

definition restart_soft_locking_dprimme ::
  "('a::{minus,abs,ord}) kernels \<Rightarrow> primme_params \<Rightarrow> int \<Rightarrow> int \<Rightarrow> int \<Rightarrow> 'a list \<Rightarrow> 'a list
     \<Rightarrow> bool \<Rightarrow> 'a list \<Rightarrow> int \<Rightarrow> int \<Rightarrow> int \<Rightarrow> int \<Rightarrow> 'a restart_state
     \<Rightarrow> (int \<times> int \<times> int \<times> 'a restart_state) option" where
  \<comment> \<open>yields the return value, \<^verbatim>\<open>*restartSize\<close>, \<^verbatim>\<open>*indexOfPreviousVecs\<close> and the
      state; \<open>evecsHat\<close> tells whether that pointer is set; \<open>rp\<close> and \<open>hp\<close> are the places
      of \<^verbatim>\<open>restartPerm\<close> and \<^verbatim>\<open>hVecsPerm\<close> in the integer workspace\<close>
  "restart_soft_locking_dprimme K primme restartSize basisSize ldhVecs evals resNorms evecsHat
       previousHVecs ldpreviousHVecs numArbitraryVecs rp hp st =
     (case soft_locking_select primme restartSize basisSize ldhVecs evals resNorms previousHVecs
             ldpreviousHVecs numArbitraryVecs rp st of
        (lay, st1) \<Rightarrow>
          (case ortho_coefficient_vectors_dprimme K primme (st_hVecs st1) basisSize ldhVecs
                  (sl_indexOfPreviousVecs lay) (sl_restartSize lay) (sl_numPrevRetained lay) of
             (ret, hVecs1) \<Rightarrow>
               if ret \<noteq> 0
               then Some (ret, sl_restartSize lay, sl_indexOfPreviousVecs lay,
                          st1\<lparr>st_hVecs := hVecs1\<rparr>)
               else if k_update_VWXR K \<noteq> 0
               then Some (k_update_VWXR K, sl_restartSize lay, sl_indexOfPreviousVecs lay,
                          st1\<lparr>st_hVecs := hVecs1\<rparr>)
               else
                 (case soft_locking_finish basisSize evecsHat rp hp lay
                         (st1\<lparr>st_hVecs := hVecs1\<rparr>) of
                    None \<Rightarrow> None
                  | Some st2 \<Rightarrow>
                      Some (0, sl_restartSize lay, sl_indexOfPreviousVecs lay, st2))))"

subsection \<open>\<^verbatim>\<open>restart_RR\<close>\<close>

definition restart_RR_H ::
  "('a::zero) list \<Rightarrow> int \<Rightarrow> 'a list \<Rightarrow> int \<Rightarrow> int \<Rightarrow> int \<Rightarrow> 'a list" where
  \<comment> \<open>the three loops that zero the columns of \<open>H\<close> above the diagonal and set the Ritz
      values on it, outside the inserted block\<close>
  "restart_RR_H H ldH hVals restartSize numPrevRetained indexOfPreviousVecs =
     (let H1 = fold (\<lambda>j H. wr (fold (\<lambda>i H. wr H (ldH * int j + int i) 0) [0 ..< Suc j] H)
                             (ldH * int j + int j) (rd hVals (int j)))
                 [0 ..< nat indexOfPreviousVecs] H;
          H2 = fold (\<lambda>j H. fold (\<lambda>i H. wr H (ldH * int j + int i) 0)
                             [0 ..< nat indexOfPreviousVecs] H)
                 [nat indexOfPreviousVecs ..< nat (indexOfPreviousVecs + numPrevRetained)] H1
      in fold (\<lambda>j H. wr (fold (\<lambda>i H. wr H (ldH * int j + int i) 0) [0 ..< Suc j] H)
                       (ldH * int j + int j) (rd hVals (int j)))
           [nat (indexOfPreviousVecs + numPrevRetained) ..< nat restartSize] H2)"

definition restart_RR_hVecs ::
  "('a::{zero,one}) list \<Rightarrow> int \<Rightarrow> int \<Rightarrow> (nat \<Rightarrow> int) \<Rightarrow> 'a list" where
  \<comment> \<open>the standard basis vectors, placed by \<^verbatim>\<open>hVecsPerm\<close>\<close>
  "restart_RR_hVecs hVecs newldhVecs restartSize hVecsPerm =
     fold (\<lambda>j hv. wr (fold (\<lambda>i hv. wr hv (newldhVecs * int j + int i) 0)
                        [0 ..< nat restartSize] hv)
                    (newldhVecs * int j + hVecsPerm j) 1)
       [0 ..< nat restartSize] hVecs"

definition orderedIndexOfPreviousVecs :: "int \<Rightarrow> int \<Rightarrow> (nat \<Rightarrow> int) \<Rightarrow> int" where
  \<comment> \<open>the first \<open>i\<close> with \<^verbatim>\<open>hVecsPerm[i] == indexOfPreviousVecs\<close>, else \<open>restartSize\<close>\<close>
  "orderedIndexOfPreviousVecs restartSize indexOfPreviousVecs hVecsPerm =
     (case find (\<lambda>i. hVecsPerm i = indexOfPreviousVecs) [0 ..< nat restartSize] of
        None \<Rightarrow> restartSize
      | Some i \<Rightarrow> int i)"

definition restart_RR ::
  "('a::{zero,one}) kernels \<Rightarrow> 'a list \<Rightarrow> int \<Rightarrow> 'a list \<Rightarrow> int \<Rightarrow> int \<Rightarrow> 'a list \<Rightarrow> int \<Rightarrow> int
     \<Rightarrow> int \<Rightarrow> int \<Rightarrow> (nat \<Rightarrow> int) \<Rightarrow> (int \<times> 'a list \<times> 'a list \<times> 'a list) option" where
  \<comment> \<open>yields the return value, \<open>H\<close>, \<open>hVecs\<close> and \<open>hVals\<close>; \<open>None\<close> when
      \<^verbatim>\<open>assert(orderedIndexOfPreviousVecs != restartSize || indexOfPreviousVecs >= restartSize)\<close>
      fails\<close>
  "restart_RR K H ldH hVecs ldhVecs newldhVecs hVals restartSize basisSize numPrevRetained
       indexOfPreviousVecs hVecsPerm =
     (let H1 = k_compute_submatrix K hVecs (ldhVecs * indexOfPreviousVecs) numPrevRetained ldhVecs
                 H basisSize ldH (ldH * indexOfPreviousVecs + indexOfPreviousVecs) ldH;
          H2 = restart_RR_H H1 ldH hVals restartSize numPrevRetained indexOfPreviousVecs;
          hVecs1 = restart_RR_hVecs hVecs newldhVecs restartSize hVecsPerm;
          hVals1 = permute_vecs_dprimme hVals 1 restartSize 1 hVecsPerm;
          ordered = orderedIndexOfPreviousVecs restartSize indexOfPreviousVecs hVecsPerm
      in if ordered = restartSize \<and> indexOfPreviousVecs < restartSize then None
         else
           (case k_solve_H K H2 (ldH * indexOfPreviousVecs + indexOfPreviousVecs) numPrevRetained
                   ldH hVecs1 (newldhVecs * ordered + ordered) newldhVecs hVals1 ordered of
              (ret, hVecs2, hVals2) \<Rightarrow>
                Some (if ret \<noteq> 0 then INSERT_SUBMATRIX_FAILURE else 0, H2, hVecs2, hVals2)))"

subsection \<open>\<^verbatim>\<open>restart_projection_dprimme\<close>\<close>

definition restart_projection_dprimme ::
  "('a::{zero,one}) kernels \<Rightarrow> primme_params \<Rightarrow> int \<Rightarrow> int \<Rightarrow> int \<Rightarrow> int \<Rightarrow> int \<Rightarrow> int \<Rightarrow> int
     \<Rightarrow> bool \<Rightarrow> int \<Rightarrow> int \<Rightarrow> 'a restart_state \<Rightarrow> (int \<times> 'a restart_state) option" where
  \<comment> \<open>\<open>evecsSize\<close> of the source is \<open>numConvergedStored\<close> of the state. The \<^verbatim>\<open>default\<close>
      case of the switch has no value of the enumeration, and \<^verbatim>\<open>ldevecs\<close> is
      \<^verbatim>\<open>primme->nLocal\<close> in the one call of the routine, so these two assertions hold.\<close>
  "restart_projection_dprimme K primme ldH ldhVecs newldhVecs restartSize basisSize
       numPrevRetained indexOfPreviousVecs evecsHat numConverged hp st =
     (case (case projection primme of
              primme_proj_RR \<Rightarrow>
                (case restart_RR K (st_H st) ldH (st_hVecs st) ldhVecs newldhVecs (st_hVals st)
                        restartSize basisSize numPrevRetained indexOfPreviousVecs
                        (\<lambda>i. rd (st_iwork st) (hp + int i)) of
                   None \<Rightarrow> None
                 | Some (ret, H1, hVecs1, hVals1) \<Rightarrow>
                     Some (ret, st\<lparr>st_H := H1, st_hVecs := hVecs1, st_hVals := hVals1\<rparr>))
            | primme_proj_harmonic \<Rightarrow>
                k_restart_qr K
                  (st\<lparr>st_iwork := fold (\<lambda>i iw. wr iw (hp + int i) (int i))
                                    [0 ..< nat restartSize] (st_iwork st)\<rparr>)
                  restartSize basisSize restartSize 0
            | primme_proj_refined \<Rightarrow>
                k_restart_qr K st restartSize basisSize numPrevRetained indexOfPreviousVecs) of
        None \<Rightarrow> None
      | Some (ret, st1) \<Rightarrow>
          Some (if ret \<noteq> 0 then (RESTART_H_FAILURE, st1)
                else if evecsHat then
                  (if k_UDUDecompose K \<noteq> 0
                   then (UDUDECOMPOSE_FAILURE, st1\<lparr>st_numConvergedStored := numConverged\<rparr>)
                   else (k_UDUDecompose K, st1\<lparr>st_numConvergedStored := numConverged\<rparr>))
                else (ret, st1)))"

subsection \<open>\<^verbatim>\<open>restart_dprimme\<close>\<close>

definition flag_all_converged :: "primme_params \<Rightarrow> int \<Rightarrow> flag list \<Rightarrow> int \<Rightarrow> flag list \<times> int" where
  \<comment> \<open>\<^verbatim>\<open>for (i = 0; i < basisSize && *numConverged < primme->numEvals; i++)\<close>; once
      \<open>numConverged\<close> reaches \<open>numEvals\<close> no later iteration would change anything\<close>
  "flag_all_converged primme basisSize flags numConverged =
     fold (\<lambda>i (fl, nc). if nc < numEvals primme \<and> fl ! i = UNCONVERGED
                         then (fl[i := CONVERGED], nc + 1) else (fl, nc))
       [0 ..< nat basisSize] (flags, numConverged)"

definition restart_select_size ::
  "('a::{zero,minus,times,inverse,ord}) fpu \<Rightarrow> primme_params \<Rightarrow> int \<Rightarrow> 'a restart_state
     \<Rightarrow> int \<times> 'a restart_state" where
  \<comment> \<open>the chain of four cases that fixes \<open>restartSize\<close>\<close>
  "restart_select_size fp primme basisSize st =
     (if basisSize + st_numLocked st + numOrthoConst primme \<ge> primme_n primme then
        (case flag_all_converged primme basisSize (st_flags st) (st_numConverged st) of
           (fl, nc) \<Rightarrow>
             (basisSize, st\<lparr>st_flags := fl, st_numConverged := nc, st_numPrevRetained := 0\<rparr>))
      else if basisSize \<le> maxBasisSize primme - maxBlockSize primme then (basisSize, st)
      else if scheme primme = primme_dtr then
        (case dtr_dprimme fp (st_numLocked st) (st_hVecs st) (st_hVals st) (st_flags st) basisSize
                (st_numPrevRetained st + max 3 (maxBlockSize primme)) (st_iev st) primme of
           (restartSize, hVecs1, hVals1, flags1) \<Rightarrow>
             (restartSize, st\<lparr>st_hVecs := hVecs1, st_hVals := hVals1, st_flags := flags1\<rparr>))
      else (min basisSize (minRestartSize primme), st))"

definition restart_dprimme ::
  "('a::{zero,one,minus,times,inverse,abs,ord}) kernels \<Rightarrow> 'a fpu \<Rightarrow> primme_params \<Rightarrow> int \<Rightarrow> int
     \<Rightarrow> int \<Rightarrow> int \<Rightarrow> 'a list \<Rightarrow> 'a list \<Rightarrow> bool \<Rightarrow> 'a list \<Rightarrow> int \<Rightarrow> int \<Rightarrow> 'a restart_state
     \<Rightarrow> (int \<times> 'a restart_state) option" where
  \<comment> \<open>\<^verbatim>\<open>restartPerm\<close> starts the integer workspace and \<^verbatim>\<open>hVecsPerm\<close> follows it at
      \<open>basisSize\<close>; the value of \<^verbatim>\<open>restart_projection_dprimme\<close> is not kept\<close>
  "restart_dprimme K fp primme basisSize ldH ldhVecs newldhVecs evals resNorms evecsHat
       previousHVecs ldpreviousHVecs numArbitraryVecs st =
     (case restart_select_size fp primme basisSize st of
        (restartSize0, st0) \<Rightarrow>
          (case (if \<not> locking primme
                 then (case restart_soft_locking_dprimme K primme restartSize0 basisSize ldhVecs
                              evals resNorms evecsHat previousHVecs ldpreviousHVecs
                              numArbitraryVecs 0 basisSize st0 of
                         None \<Rightarrow> None
                       | Some (ret, restartSize, indexOfPreviousVecs, st1) \<Rightarrow>
                           Some (ret, restartSize, indexOfPreviousVecs, numArbitraryVecs, st1))
                 else Some (k_restart_locking K restartSize0 basisSize numArbitraryVecs st0)) of
             None \<Rightarrow> None
           | Some (ret, restartSize, indexOfPreviousVecs, numArbitraryVecs1, st1) \<Rightarrow>
               if ret \<noteq> 0 then Some (ret, st1)
               else
                 (let st2 = (if target primme \<noteq> primme_smallest \<and> target primme \<noteq> primme_largest
                             then st1\<lparr>st_prevRitzVals :=
                                        permute_vecs_dprimme
                                          (permute_vecs_dprimme (st_prevRitzVals st1) 1 basisSize 1
                                             (\<lambda>i. rd (st_iwork st1) (int i)))
                                          1 restartSize 1
                                          (\<lambda>i. rd (st_iwork st1) (basisSize + int i)),
                                      st_numPrevRitzVals := restartSize\<rparr>
                             else st1)
                  in (case restart_projection_dprimme K primme ldH ldhVecs
                             (if newldhVecs = 0 then restartSize else newldhVecs)
                             restartSize basisSize (st_numPrevRetained st2)
                             indexOfPreviousVecs evecsHat (st_numConverged st2) basisSize st2 of
                        None \<Rightarrow> None
                      | Some (ret3, st3) \<Rightarrow>
                          Some (0, st3\<lparr>st_restartSizeOutput := restartSize\<rparr>)))))"


section \<open>Concrete inputs\<close>

text \<open>Small structures and an eigensolver outcome on which the theorems below are run.\<close>

definition example_primme :: primme_params where
  "example_primme =
     \<lparr>primme_n = 100, numEvals = 2, maxBasisSize = 5, minRestartSize = 2, maxBlockSize = 1,
      numOrthoConst = 0, locking = False, scheme = primme_thick, projection = primme_proj_RR,
      target = primme_smallest, aNorm = 0, initSize = 0, maxMatvecs = 1000,
      targetShifts = None, numTargetShifts = 0, stats_numMatvecs = 0\<rparr>"

definition example_svds :: primme_svds_params where
  "example_svds =
     \<lparr>svds_m = 4, svds_n = 3, svds_numProcs = 1, svds_matrixMatvec = True,
      svds_applyPreconditioner = False, svds_precondition = 0, svds_globalSumDouble = False,
      svds_numSvals = 2, svds_target = primme_svds_smallest, svds_method = primme_svds_op_AtA,
      svds_methodStage2 = primme_svds_op_augmented, svds_printLevel = 0, svds_aNorm = 1,
      svds_initSize = 0, svds_numOrthoConst = 0, svds_maxMatvecs = 1000,
      svds_targetShifts = None, svds_numTargetShifts = 0, svds_stats_numMatvecs = 0,
      svds_primme = example_primme, svds_primmeStage2 = example_primme\<rparr>"

definition example_store :: shift_store where
  "example_store = \<lparr>cells = Map.empty, next_addr = 0\<rparr>"

definition example_zprimme :: eigensolver where
  \<comment> \<open>an eigensolver run that finds the eigenvalues 4 and -1, and fails with -3 once it is
      given target shifts\<close>
  "example_zprimme p store evals resNorms =
     ((if targetShifts p = None then 0 else - 3), [4, - 1], [1 / 2, 1 / 4], p\<lparr>initSize := 2\<rparr>)"

definition failing_zprimme :: eigensolver where
  \<comment> \<open>an eigensolver run that fails with -3 and leaves its arguments as they are\<close>
  "failing_zprimme p store evals resNorms = (- 3, evals, resNorms, p)"

text \<open>
  Kernels in exact arithmetic for the runs below. The product \<open>X\<^sup>H H X\<close> is computed from
  the symmetric matrix stored in the upper triangle of \<open>H\<close>. The dense solver is the one
  for a diagonal block, whose eigenvalues are the diagonal entries and whose eigenvectors
  are the standard basis; the blocks it is given below are 1 by 1 or empty. The
  orthogonalisation leaves the coefficient vectors as they are, which is its result on
  vectors that are orthonormal already.
\<close>

definition symmetric_entry :: "'a list \<Rightarrow> int \<Rightarrow> nat \<Rightarrow> nat \<Rightarrow> 'a" where
  \<comment> \<open>entry \<open>(i, k)\<close> of the symmetric matrix whose upper triangle is stored in \<open>H\<close>\<close>
  "symmetric_entry H ldH i k =
     (if i \<le> k then rd H (ldH * int k + int i) else rd H (ldH * int i + int k))"

definition compute_submatrix_exact ::
  "real list \<Rightarrow> int \<Rightarrow> int \<Rightarrow> int \<Rightarrow> real list \<Rightarrow> int \<Rightarrow> int \<Rightarrow> int \<Rightarrow> int \<Rightarrow> real list" where
  \<comment> \<open>Modelled from the spec: \<^verbatim>\<open>compute_submatrix_dprimme\<close> is not in the source.
      "insert the submatrix (previousHVecs)^H H_old (previousHVecs)".\<close>
  "compute_submatrix_exact X xoff nX ldX H nH ldH roff ldR =
     fold (\<lambda>j R.
             fold (\<lambda>i R. wr R (roff + ldR * int j + int i)
                     (foldr (\<lambda>a s.
                          foldr (\<lambda>b s. rd X (xoff + ldX * int i + int a) * symmetric_entry H ldH a b
                                           * rd X (xoff + ldX * int j + int b) + s)
                            [0 ..< nat nH] s)
                        [0 ..< nat nH] 0))
               [0 ..< nat nX] R)
       [0 ..< nat nX] H"

definition solve_H_diagonal ::
  "real list \<Rightarrow> int \<Rightarrow> int \<Rightarrow> int \<Rightarrow> real list \<Rightarrow> int \<Rightarrow> int \<Rightarrow> real list \<Rightarrow> int
     \<Rightarrow> int \<times> real list \<times> real list" where
  \<comment> \<open>Modelled from the spec: \<^verbatim>\<open>solve_H_dprimme\<close> is not in the source. "Solve the small
      dense Hermitian eigenproblem for the inserted submatrix and write its eigenpairs
      back": here for a diagonal block.\<close>
  "solve_H_diagonal H hoff n ldH hVecs voff ldhVecs hVals valoff =
     (0,
      fold (\<lambda>j hv. fold (\<lambda>i hv. wr hv (voff + ldhVecs * int j + int i) (if i = j then 1 else 0))
                      [0 ..< nat n] hv)
        [0 ..< nat n] hVecs,
      fold (\<lambda>j hv. wr hv (valoff + int j) (rd H (hoff + ldH * int j + int j))) [0 ..< nat n] hVals)"

definition example_kernels :: "real kernels" where
  "example_kernels =
     \<lparr>k_ortho = (\<lambda>hVecs ld b1 b2 off n rows. (0, hVecs)),
      k_harmonic_coefficients = (\<lambda>hVecs bs ld idx nbs npr. (0, hVecs)),
      k_update_VWXR = 0,
      k_compute_submatrix = compute_submatrix_exact,
      k_solve_H = solve_H_diagonal,
      k_restart_qr = (\<lambda>st rs bs npr idx. Some (0, st)),
      k_UDUDecompose = 0,
      k_restart_locking = (\<lambda>rs bs nav st. (0, rs, 0, nav, st))\<rparr>"

definition example_fpu :: "real fpu" where
  "example_fpu = \<lparr>fp_sqrt = sqrt, fp_of_int = of_int\<rparr>"

definition full_basis_primme :: primme_params where
  \<comment> \<open>a basis of 3 vectors is full; thick restart keeps 1 Ritz vector\<close>
  "full_basis_primme = example_primme\<lparr>numEvals := 1, maxBasisSize := 3, minRestartSize := 1\<rparr>"

definition full_basis_state :: "real restart_state" where
  \<comment> \<open>\<open>H = diag(1, 2, 3)\<close> with its eigenpairs, nothing converged, one coefficient vector
      retained from the previous iteration\<close>
  "full_basis_state =
     \<lparr>st_flags = [UNCONVERGED, UNCONVERGED, UNCONVERGED],
      st_hVals = [1, 2, 3],
      st_hVecs = [1, 0, 0,  0, 1, 0,  0, 0, 1],
      st_H = [1, 0, 0,  0, 2, 0,  0, 0, 3],
      st_prevRitzVals = [], st_numPrevRitzVals = 0,
      st_iwork = [0, 0, 0, 0, 0, 0], st_iev = [0], st_ievSize = 1,
      st_numConverged = 0, st_numLocked = 0, st_numConvergedStored = 0,
      st_numPrevRetained = 1, st_restartSizeOutput = 0\<rparr>"

definition small_basis_state :: "real restart_state" where
  \<comment> \<open>a basis of 2 vectors where 5 are allowed: \<open>H = diag(1, 3)\<close> with its eigenpairs,
      nothing converged, nothing retained from the previous iteration\<close>
  "small_basis_state =
     \<lparr>st_flags = [UNCONVERGED, UNCONVERGED],
      st_hVals = [1, 3],
      st_hVecs = [1, 0,  0, 1],
      st_H = [1, 0,  0, 3],
      st_prevRitzVals = [], st_numPrevRitzVals = 0,
      st_iwork = [0, 0, 0, 0], st_iev = [0], st_ievSize = 1,
      st_numConverged = 0, st_numLocked = 0, st_numConvergedStored = 0,
      st_numPrevRetained = 0, st_restartSizeOutput = 0\<rparr>"

definition full_basis_locked :: "real restart_state" where
  \<comment> \<open>\<open>full_basis_state\<close> as the soft-locking restart leaves it: \<^verbatim>\<open>restartPerm\<close> and
      \<^verbatim>\<open>hVecsPerm\<close> are both \<open>1, 0, 2\<close>\<close>
  "full_basis_locked =
     full_basis_state\<lparr>st_hVals := [2, 1, 3], st_hVecs := [0, 1, 0,  1, 0, 0,  0, 0, 1],
       st_iwork := [1, 0, 2, 1, 0, 2], st_ievSize := 0\<rparr>"

definition failing_solve_kernels :: "real kernels" where
  \<comment> \<open>the dense eigensolver reports a failure\<close>
  "failing_solve_kernels =
     example_kernels\<lparr>k_solve_H := (\<lambda>H hoff n ldH hVecs voff ldhVecs hVals valoff.
                                      (- 1, hVecs, hVals))\<rparr>"

definition failing_UDU_kernels :: "real kernels" where
  \<comment> \<open>the factorisation of \<open>M\<close> reports a failure\<close>
  "failing_UDU_kernels = example_kernels\<lparr>k_UDUDecompose := - 1\<rparr>"

definition drifted_state :: "real restart_state" where
  \<comment> \<open>the first pair is flagged converged, its Ritz value is 1\<close>
  "drifted_state =
     small_basis_state\<lparr>st_flags := [CONVERGED, UNCONVERGED], st_numConverged := 1\<rparr>"

definition dtr_primme :: primme_params where
  \<comment> \<open>dynamic thick restart with blocks of 3 in a basis of 8\<close>
  "dtr_primme = example_primme\<lparr>numEvals := 1, maxBasisSize := 8, minRestartSize := 1,
     maxBlockSize := 3, scheme := primme_dtr\<rparr>"

definition dtr_hVals :: "real list" where
  "dtr_hVals = [0, 1, 2, 3, 3, 4, 4, 15]"

definition dtr_flags :: "flag list" where
  \<comment> \<open>\<open>maxBasisSize + 1\<close> flags; the rightmost Ritz pair is flagged converged\<close>
  "dtr_flags = [UNCONVERGED, UNCONVERGED, UNCONVERGED, UNCONVERGED, UNCONVERGED, UNCONVERGED,
                UNCONVERGED, CONVERGED, UNCONVERGED]"

subsection \<open>What the claims speak of\<close>

definition diagonalises ::
  "('a::{zero,plus,times}) list \<Rightarrow> int \<Rightarrow> 'a list \<Rightarrow> 'a list \<Rightarrow> int \<Rightarrow> nat \<Rightarrow> bool" where
  \<comment> \<open>\<open>H x = \<lambda> x\<close> for each of the first \<open>n\<close> columns \<open>x\<close> of \<open>hVecs\<close> with its \<open>hVals\<close>\<close>
  "diagonalises H ldH hVals hVecs ldhVecs n =
     list_all (\<lambda>j. list_all (\<lambda>i.
         foldr (\<lambda>k s. symmetric_entry H ldH i k * rd hVecs (ldhVecs * int j + int k) + s)
           [0 ..< n] 0
         = rd hVals (int j) * rd hVecs (ldhVecs * int j + int i)) [0 ..< n]) [0 ..< n]"

definition dtr_region :: "primme_params \<Rightarrow> int \<Rightarrow> int \<Rightarrow> int \<Rightarrow> int \<Rightarrow> int \<Rightarrow> bool" where
  \<comment> \<open>the pairs \<open>(l, r)\<close> that the two loops of \<^verbatim>\<open>dtr_dprimme\<close> visit and admit\<close>
  "dtr_region primme basisSize numFree lMin l r =
     (lMin \<le> l \<and> l < basisSize - numFree \<and> 0 \<le> r \<and> r < basisSize - l - numFree \<and>
      (basisSize - l - r) smod maxBlockSize primme = 0)"

section \<open>Properties of the SVD front end\<close>

subsection \<open>Loops that assign one array element per iteration\<close>

lemma length_fold_upd:
  "length (fold (\<lambda>i t. t[i := g i t]) is t) = length t"
  by (induction "is" arbitrary: t) auto

lemma nth_fold_upd:
  "j < length t \<Longrightarrow>
   fold (\<lambda>i t. t[i := g i (t ! i)]) [a ..< b] t ! j =
     (if a \<le> j \<and> j < b then g j (t ! j) else t ! j)"
proof (induction b)
  case 0
  then show ?case by simp
next
  case (Suc b)
  show ?case
  proof (cases "a \<le> b")
    case True
    with Suc show ?thesis
      by (auto simp: length_fold_upd nth_list_update less_Suc_eq)
  next
    case False
    then show ?thesis by auto
  qed
qed

subsection \<open>Sorting with \<^verbatim>\<open>comp_double\<close>\<close>

lemma set_qsort_insert: "set (qsort_insert cmp x xs) = insert x (set xs)"
  by (induction xs) auto

lemma set_qsort: "set (qsort cmp xs) = set xs"
  by (induction xs) (auto simp: set_qsort_insert)

lemma length_qsort_insert: "length (qsort_insert cmp x xs) = Suc (length xs)"
  by (induction xs) auto

lemma length_qsort: "length (qsort cmp xs) = length xs"
  by (induction xs) (auto simp: length_qsort_insert)

lemma sorted_qsort_insert:
  "sorted xs \<Longrightarrow> sorted (qsort_insert comp_double x xs)"
  by (induction xs) (auto simp: set_qsort_insert comp_double_def split: if_splits)

lemma sorted_qsort: "sorted (qsort comp_double xs)"
  by (induction xs) (auto simp: sorted_qsort_insert)

subsection \<open>The shifts of the second stage\<close>

lemma length_smallest_shifts:
  "length (smallest_shifts machEps ps svals rnorms) = nat (svds_numSvals ps)"
  by (simp add: smallest_shifts_def Let_def length_qsort length_fold_upd)

lemma sorted_smallest_shifts: "sorted (smallest_shifts machEps ps svals rnorms)"
  by (simp add: smallest_shifts_def Let_def sorted_qsort)

lemma bound_smallest_shifts:
  assumes "x \<in> set (smallest_shifts machEps ps svals rnorms)"
  shows "svds_aNorm ps * machEps \<le> x"
proof -
  define b where "b = svds_aNorm ps * machEps"
  define k where "k = nat (svds_initSize ps)"
  define n where "n = nat (svds_numSvals ps)"
  define t1 where
    "t1 = fold (\<lambda>i t. t[i := max (svals ! i - rnorms ! i) b]) [0 ..< k] (replicate n (0::real))"
  define t2 where "t2 = fold (\<lambda>i t. t[i := b]) [k ..< n] t1"
  have len1: "length t1 = n" by (simp add: t1_def length_fold_upd)
  have len2: "length t2 = n" by (simp add: t2_def length_fold_upd len1)
  have x: "x \<in> set t2"
    using assms
    by (simp add: smallest_shifts_def Let_def set_qsort t2_def t1_def b_def k_def n_def)
  then obtain j where j: "j < n" "x = t2 ! j"
    by (auto simp: in_set_conv_nth len2)
  have n1: "t1 ! j = (if j < k then max (svals ! j - rnorms ! j) b else 0)"
    using j(1)
      nth_fold_upd [of j "replicate n (0::real)" "\<lambda>i _. max (svals ! i - rnorms ! i) b" 0 k]
    by (simp add: t1_def)
  have n2: "t2 ! j = (if k \<le> j then b else t1 ! j)"
    using j(1) nth_fold_upd [of j t1 "\<lambda>_ _. b" k n]
    by (simp add: t2_def len1)
  show ?thesis using j n1 n2 by (auto simp: b_def)
qed

lemma targetShifts_from_svds_aNorm:
  "targetShifts (from_svds_aNorm ps method p) = targetShifts p"
  by (simp add: from_svds_aNorm_def)

lemma shifts_from_svds_initial_guess:
  "targetShifts (from_svds_initial_guess method p) = targetShifts p"
  "numTargetShifts (from_svds_initial_guess method p) = numTargetShifts p"
  by (simp_all add: from_svds_initial_guess_def)

lemma from_svds_shifts_smallest:
  assumes "targetShifts p = None" and "svds_target ps = primme_svds_smallest"
  shows "from_svds_shifts machEps ps 1 method svals rnorms p store =
           (p\<lparr>targetShifts := Some (next_addr store), numTargetShifts := svds_numSvals ps\<rparr>,
            store_shifts (Some (next_addr store)) (smallest_shifts machEps ps svals rnorms)
              (snd (primme_calloc (svds_numSvals ps) store)), True)"
  using assms by (simp add: from_svds_shifts_def primme_calloc_def)

lemma from_svds_smallest:
  assumes "targetShifts (svds_primmeStage2 ps) = None"
      and "svds_target ps = primme_svds_smallest"
      and "svds_methodStage2 ps \<noteq> primme_svds_op_none"
  shows "copy_last_params_from_svds machEps ps 1 svals rnorms store =
           (ps\<lparr>svds_primmeStage2 := from_svds_initial_guess (svds_methodStage2 ps)
                 ((from_svds_aNorm ps (svds_methodStage2 ps) (svds_primmeStage2 ps))
                    \<lparr>initSize := svds_initSize ps, numOrthoConst := svds_numOrthoConst ps,
                     maxMatvecs := svds_maxMatvecs ps,
                     targetShifts := Some (next_addr store),
                     numTargetShifts := svds_numSvals ps\<rparr>)\<rparr>,
            store_shifts (Some (next_addr store)) (smallest_shifts machEps ps svals rnorms)
              (snd (primme_calloc (svds_numSvals ps) store)), True)"
  using assms
  by (simp add: copy_last_params_from_svds_def stage_params_def stage_method_def
      set_stage_params_def from_svds_shifts_smallest targetShifts_from_svds_aNorm)

lemmas svds_eval =
  copy_last_params_from_svds_def copy_last_params_to_svds_def example_svds_def
  example_primme_def example_store_def example_zprimme_def
  stage_method_def stage_params_def set_stage_params_def from_svds_shifts_def from_svds_aNorm_def
  from_svds_initial_guess_def to_svds_shifts_def to_svds_counts_def to_svds_aNorm_def
  to_svds_rnorms_def min_quotient_def sqrt_svals_def is_normal_eq_def
  primme_calloc_def smallest_shifts_def shifts_at_def store_shifts_def free_shifts_def
  comp_double_def svds_stage_def
  eval_nat_numeral upt_conv_Cons

lemma example_shifts:
  "shifts_at (fst (snd (copy_last_params_from_svds (1 / 8) (example_svds\<lparr>svds_initSize := 1\<rparr>) 1
                          [1, 3] [1 / 2, 1] example_store))) (Some 0) = [1 / 8, 1 / 2]"
  by (simp add: svds_eval)

text \<open>
  \<^bold>\<open>C9.\<close> When the second stage is set up (\<open>stage = 1\<close>, a second-stage method is
  configured) with target \<open>smallest\<close> and no target shifts given by the user in the
  second-stage structure, the structure receives a shift array of exactly \<open>numSvals\<close>
  entries, each at least \<open>aNorm * machEps\<close>, sorted in ascending order, and
  \<open>numTargetShifts = numSvals\<close>. This is the state in which \<^verbatim>\<open>zprimme\<close> is then called.
  The number of triplets found by the first stage lies between 0 and \<open>numSvals\<close>, the
  size of the array that the first filling loop writes.
\<close>

theorem stage2_smallest_shifts_sorted:
  assumes "targetShifts (svds_primmeStage2 ps) = None"
      and "svds_target ps = primme_svds_smallest"
      and "svds_methodStage2 ps \<noteq> primme_svds_op_none"
      and "0 \<le> svds_initSize ps" and "svds_initSize ps \<le> svds_numSvals ps"
      and "copy_last_params_from_svds machEps ps 1 svals rnorms store = (ps', store', allocated)"
  shows "targetShifts (svds_primmeStage2 ps') \<noteq> None
       \<and> numTargetShifts (svds_primmeStage2 ps') = svds_numSvals ps
       \<and> int (length (shifts_at store' (targetShifts (svds_primmeStage2 ps')))) = svds_numSvals ps
       \<and> (\<forall>x \<in> set (shifts_at store' (targetShifts (svds_primmeStage2 ps'))).
             svds_aNorm ps * machEps \<le> x)
       \<and> sorted (shifts_at store' (targetShifts (svds_primmeStage2 ps')))"
proof -
  have ts: "targetShifts (svds_primmeStage2 ps') = Some (next_addr store)"
    and nts: "numTargetShifts (svds_primmeStage2 ps') = svds_numSvals ps"
    and store': "store' = store_shifts (Some (next_addr store))
                   (smallest_shifts machEps ps svals rnorms)
                   (snd (primme_calloc (svds_numSvals ps) store))"
    using from_svds_smallest [OF assms(1-3), of machEps svals rnorms store] assms(6)
    by (auto simp: shifts_from_svds_initial_guess)
  have sh: "shifts_at store' (Some (next_addr store)) =
              smallest_shifts machEps ps svals rnorms"
    by (simp add: store' shifts_at_def store_shifts_def)
  have "\<forall>x \<in> set (smallest_shifts machEps ps svals rnorms). svds_aNorm ps * machEps \<le> x"
    using bound_smallest_shifts by blast
  then show ?thesis
    using assms(4,5)
    by (simp add: sh ts nts length_smallest_shifts sorted_smallest_shifts)
qed

theorem stage2_smallest_shifts_sorted_witness:
  "shifts_at (fst (snd (copy_last_params_from_svds (1 / 8) (example_svds\<lparr>svds_initSize := 1\<rparr>) 1
                         [1, 3] [1 / 2, 1] example_store))) (Some 0) = [1 / 8, 1 / 2]
   \<and> sorted [1 / 8, 1 / 2 :: real]"
  using stage2_smallest_shifts_sorted
    [of "example_svds\<lparr>svds_initSize := 1\<rparr>" "1 / 8" "[1, 3]" "[1 / 2, 1]" example_store
      "fst (copy_last_params_from_svds (1 / 8) (example_svds\<lparr>svds_initSize := 1\<rparr>) 1
              [1, 3] [1 / 2, 1] example_store)"
      "fst (snd (copy_last_params_from_svds (1 / 8) (example_svds\<lparr>svds_initSize := 1\<rparr>) 1
                   [1, 3] [1 / 2, 1] example_store))"
      "snd (snd (copy_last_params_from_svds (1 / 8) (example_svds\<lparr>svds_initSize := 1\<rparr>) 1
                   [1, 3] [1 / 2, 1] example_store))"]
  by (simp add: example_shifts)

subsection \<open>Singular values from eigenvalues of the normal equations\<close>

lemma nth_sqrt_svals:
  "i < length svals \<Longrightarrow>
   sqrt_svals k svals ! i = (if i < nat k then sqrt (max 0 (svals ! i)) else svals ! i)"
  using nth_fold_upd [of i svals "\<lambda>_ x. sqrt (max 0 x)" 0 "nat k"]
  by (simp add: sqrt_svals_def)

lemma from_svds_method:
  "svds_method (fst (copy_last_params_from_svds machEps ps stage svals rnorms store))
     = svds_method ps"
  "svds_methodStage2 (fst (copy_last_params_from_svds machEps ps stage svals rnorms store))
     = svds_methodStage2 ps"
  by (simp_all add: copy_last_params_from_svds_def set_stage_params_def split: prod.splits)

lemma to_svds_counts_method:
  "svds_method (to_svds_counts method p ps) = svds_method ps"
  "svds_methodStage2 (to_svds_counts method p ps) = svds_methodStage2 ps"
  by (simp_all add: to_svds_counts_def to_svds_aNorm_def)

lemma to_svds_method:
  "svds_method (fst (snd (snd (copy_last_params_to_svds ps stage svals rnorms al store))))
     = svds_method ps"
  "svds_methodStage2 (fst (snd (snd (copy_last_params_to_svds ps stage svals rnorms al store))))
     = svds_methodStage2 ps"
  by (simp_all add: copy_last_params_to_svds_def set_stage_params_def to_svds_counts_method
      split: prod.splits)

lemma to_svds_svals:
  assumes "is_normal_eq (stage_method ps stage)"
  shows "fst (copy_last_params_to_svds ps stage svals rnorms al store) =
           sqrt_svals (initSize (stage_params ps stage)) svals"
  using assms
  by (auto simp: copy_last_params_to_svds_def is_normal_eq_def split: prod.splits)

lemma example_methods:
  "svds_methodStage2 example_svds = primme_svds_op_augmented"
  "svds_method example_svds = primme_svds_op_AtA"
  by (simp_all add: example_svds_def)

text \<open>
  \<^bold>\<open>C10.\<close> When the first stage works on \<open>A\<^sup>H A\<close> or \<open>A A\<^sup>H\<close>, every singular value
  written back (the indices below the number \<open>initSize\<close> of pairs the eigensolver reports)
  is the square root of \<open>max 0 \<lambda>\<close> for the eigenvalue \<open>\<lambda>\<close> the eigensolver left in that
  place, and so is not negative.
\<close>

theorem stage1_svals_sqrt:
  assumes "svds_method ps = primme_svds_op_AtA \<or> svds_method ps = primme_svds_op_AAt"
      and "copy_last_params_from_svds machEps ps 0 svals rnorms store = (ps1, store1, allocated)"
      and "zprimme (svds_primme ps1) store1 svals rnorms = (ret, evals, rn, p1)"
      and "i < nat (initSize p1)" and "i < length evals"
  shows "fst (snd (svds_stage zprimme machEps 0 (svals, rnorms, ps, store))) ! i
           = sqrt (max 0 (evals ! i))
       \<and> 0 \<le> fst (snd (svds_stage zprimme machEps 0 (svals, rnorms, ps, store))) ! i"
proof -
  have m: "svds_method ps1 = svds_method ps"
    using from_svds_method(1) [of machEps ps 0 svals rnorms store] assms(2) by simp
  have n: "is_normal_eq (stage_method (set_stage_params ps1 0 p1) 0)"
    using assms(1) m by (simp add: is_normal_eq_def stage_method_def set_stage_params_def)
  have "fst (snd (svds_stage zprimme machEps 0 (svals, rnorms, ps, store)))
          = sqrt_svals (initSize p1) evals"
    using assms(2,3) to_svds_svals [OF n]
    by (simp add: svds_stage_def stage_params_def set_stage_params_def)
  then show ?thesis
    using assms(4,5) by (simp add: nth_sqrt_svals)
qed

theorem stage1_svals_sqrt_witness:
  "fst (snd (svds_stage example_zprimme (1 / 8) 0
               ([0, 0], [0, 0], example_svds, example_store))) ! 1 = 0"
  using stage1_svals_sqrt [of example_svds "1 / 8" "[0, 0]" "[0, 0]" example_store
      "fst (copy_last_params_from_svds (1 / 8) example_svds 0 [0, 0] [0, 0] example_store)"
      "fst (snd (copy_last_params_from_svds (1 / 8) example_svds 0 [0, 0] [0, 0] example_store))"
      "snd (snd (copy_last_params_from_svds (1 / 8) example_svds 0 [0, 0] [0, 0] example_store))"
      example_zprimme
      "fst (example_zprimme
              (svds_primme (fst (copy_last_params_from_svds (1 / 8) example_svds 0 [0, 0] [0, 0]
                              example_store)))
              (fst (snd (copy_last_params_from_svds (1 / 8) example_svds 0 [0, 0] [0, 0]
                           example_store))) [0, 0] [0, 0])"
      "[4, - 1]" "[1 / 2, 1 / 4]"
      "(svds_primme (fst (copy_last_params_from_svds (1 / 8) example_svds 0 [0, 0] [0, 0]
                       example_store)))\<lparr>initSize := 2\<rparr>"
      1]
  by (simp add: example_zprimme_def example_methods prod_eq_iff)

subsection \<open>Return codes of the two stages\<close>

lemma example_check_input:
  "primme_svds_check_input (Some [0, 0]) True (Some [0, 0]) (Some example_svds) = 0"
  by (simp add: primme_svds_check_input_def example_svds_def)

lemma example_check_input_one_stage:
  "primme_svds_check_input (Some [0, 0]) True (Some [0, 0])
     (Some (example_svds\<lparr>svds_methodStage2 := primme_svds_op_none\<rparr>)) = 0"
  by (simp add: primme_svds_check_input_def example_svds_def)

lemma svds_stage_code:
  assumes "copy_last_params_from_svds machEps ps stage svals rnorms store = (ps1, store1, al1)"
      and "zprimme (stage_params ps1 stage) store1 svals rnorms = (r, sv1, rn1, p1)"
  shows "svds_stage zprimme machEps stage (svals, rnorms, ps, store) =
           (r, copy_last_params_to_svds (set_stage_params ps1 stage p1) stage sv1 rn1 al1 store1)"
  using assms by (simp add: svds_stage_def)

lemma triple_collapse: "x = (fst x, fst (snd x), snd (snd x))"
  by simp

lemma quadruple_collapse: "x = (fst x, fst (snd x), fst (snd (snd x)), snd (snd (snd x)))"
  by simp

text \<open>
  \<^bold>\<open>C6.\<close> Once \<^verbatim>\<open>zprimme_svds\<close> has passed the workspace query, the input check and
  the allocation, its return value is decided by what the two calls of \<^verbatim>\<open>zprimme\<close>
  return. Let \<open>r1\<close> be the code that \<^verbatim>\<open>zprimme\<close> returns on the first-stage structure
  as \<^verbatim>\<open>copy_last_params_from_svds\<close> has set it up, and \<open>r2\<close> the code it returns on the
  second-stage structure, set up from what \<^verbatim>\<open>copy_last_params_to_svds\<close> has left of the
  first stage. A non-zero \<open>r1\<close> gives \<open>r1 - 100\<close>; after \<open>r1 = 0\<close>, no second stage
  (\<open>methodStage2 = none\<close>) gives 0; otherwise a non-zero \<open>r2\<close> gives \<open>r2 - 200\<close>, and
  \<open>r2 = 0\<close> gives 0.
\<close>

theorem zprimme_svds_return_codes:
  assumes "\<not> (svals = None \<and> \<not> svecs \<and> resNorms = None)"
      and "primme_svds_check_input svals svecs resNorms (Some ps) = 0"
      and "mem_ok"
      and "copy_last_params_from_svds machEps ps 0 (the svals) (the resNorms) store
             = (ps1, store1, al1)"
      and "zprimme (svds_primme ps1) store1 (the svals) (the resNorms) = (r1, sv1, rn1, p1)"
      and "copy_last_params_to_svds (ps1\<lparr>svds_primme := p1\<rparr>) 0 sv1 rn1 al1 store1
             = (sv, rn, ps', store')"
      and "copy_last_params_from_svds machEps ps' 1 sv rn store' = (ps2, store2, al2)"
      and "zprimme (svds_primmeStage2 ps2) store2 sv rn = (r2, sv2, rn2, p2)"
  shows "fst (zprimme_svds zprimme machEps mem_ok svals svecs resNorms ps store) =
           (if r1 \<noteq> 0 then r1 - 100
            else if svds_methodStage2 ps = primme_svds_op_none then 0
            else if r2 \<noteq> 0 then r2 - 200 else 0)"
proof -
  have s1: "svds_stage zprimme machEps 0 (the svals, the resNorms, ps, store) =
              (r1, sv, rn, ps', store')"
    using svds_stage_code [of machEps ps 0 "the svals" "the resNorms" store ps1 store1 al1
        zprimme r1 sv1 rn1 p1] assms(4,5,6)
    by (simp add: stage_params_def set_stage_params_def)
  have s2: "svds_stage zprimme machEps 1 (sv, rn, ps', store') =
              (r2, copy_last_params_to_svds (ps2\<lparr>svds_primmeStage2 := p2\<rparr>) 1 sv2 rn2 al2
                     store2)"
    using svds_stage_code [of machEps ps' 1 sv rn store' ps2 store2 al2 zprimme r2 sv2 rn2 p2]
      assms(7,8)
    by (simp add: stage_params_def set_stage_params_def)
  have m: "svds_methodStage2 ps' = svds_methodStage2 ps"
    using from_svds_method(2) [of machEps ps 0 "the svals" "the resNorms" store]
      to_svds_method(2) [of "ps1\<lparr>svds_primme := p1\<rparr>" 0 sv1 rn1 al1 store1] assms(4,6)
    by simp
  have z: "zprimme_svds zprimme machEps mem_ok svals svecs resNorms ps store =
             (if r1 \<noteq> 0 then (r1 - 100, Some (sv, rn, ps', store'))
              else if svds_methodStage2 ps = primme_svds_op_none
              then (0, Some (sv, rn, ps', store'))
              else if r2 \<noteq> 0
              then (r2 - 200, Some (copy_last_params_to_svds (ps2\<lparr>svds_primmeStage2 := p2\<rparr>)
                                      1 sv2 rn2 al2 store2))
              else (0, Some (copy_last_params_to_svds (ps2\<lparr>svds_primmeStage2 := p2\<rparr>)
                               1 sv2 rn2 al2 store2)))"
    using assms(1,2,3) m
    by (simp add: zprimme_svds_def allocate_workspace_svds_def s1 s2)
  show ?thesis
    by (simp add: z)
qed

theorem zprimme_svds_return_codes_witness:
  "fst (failing_zprimme (svds_primme example_svds) example_store [0, 0] [0, 0]) = - 3
   \<and> fst (zprimme_svds failing_zprimme (1 / 8) True (Some [0, 0]) True (Some [0, 0])
            example_svds example_store) = - 103
   \<and> fst (zprimme_svds example_zprimme (1 / 8) True (Some [0, 0]) True (Some [0, 0])
            example_svds example_store) = - 203
   \<and> fst (zprimme_svds example_zprimme (1 / 8) True (Some [0, 0]) True (Some [0, 0])
            (example_svds\<lparr>svds_methodStage2 := primme_svds_op_none\<rparr>) example_store) = 0"
proof -
  have q: "\<not> (Some [0, 0::real] = None \<and> \<not> True \<and> Some [0, 0::real] = None)" "True"
    by simp_all
  note a = zprimme_svds_return_codes [where zprimme = failing_zprimme and machEps = "1 / 8"
      and store = example_store,
      OF q(1) example_check_input q(2) triple_collapse quadruple_collapse quadruple_collapse
        triple_collapse quadruple_collapse]
  note b = zprimme_svds_return_codes [where zprimme = example_zprimme and machEps = "1 / 8"
      and store = example_store,
      OF q(1) example_check_input q(2) triple_collapse quadruple_collapse quadruple_collapse
        triple_collapse quadruple_collapse]
  note c = zprimme_svds_return_codes [where zprimme = example_zprimme and machEps = "1 / 8"
      and store = example_store,
      OF q(1) example_check_input_one_stage q(2) triple_collapse quadruple_collapse
        quadruple_collapse triple_collapse quadruple_collapse]
  show ?thesis
    using a b c
    by (simp add: svds_eval failing_zprimme_def)
qed

section \<open>Properties of the restart routines\<close>

subsection \<open>Loops and array accesses\<close>

lemma fold_invariant:
  assumes "P s" and "\<And>x s. x \<in> set xs \<Longrightarrow> P s \<Longrightarrow> P (f x s)"
  shows "P (fold f xs s)"
  using assms by (induction xs arbitrary: s) auto

lemma set_int_range: "x \<in> set (int_range a b) \<longleftrightarrow> a \<le> x \<and> x < b"
proof
  assume "x \<in> set (int_range a b)"
  then show "a \<le> x \<and> x < b" by (auto simp: int_range_def)
next
  assume h: "a \<le> x \<and> x < b"
  then have "x = a + int (nat (x - a))" and "nat (x - a) < nat (b - a)" by auto
  then show "x \<in> set (int_range a b)"
    unfolding int_range_def set_map set_upt by (metis atLeastLessThan_iff imageI le0)
qed

lemma length_wr [simp]: "length (wr xs i v) = length xs"
  by (simp add: wr_def)

lemmas restart_eval =
  rd_def wr_def int_range_def eval_nat_numeral upt_conv_Cons signed_modulo_int_def

subsection \<open>Dynamic thick restart\<close>

lemma dtr_step_invariant:
  assumes "lMin \<le> l" "l < basisSize - numFree" "0 \<le> r" "r < basisSize - l - numFree"
      and "(snd opt = (lMin, 0)) \<or>
           dtr_region primme basisSize numFree lMin (fst (snd opt)) (snd (snd opt))"
  shows "(snd (dtr_step fp primme hVals cur basisSize l r opt) = (lMin, 0)) \<or>
         dtr_region primme basisSize numFree lMin
           (fst (snd (dtr_step fp primme hVals cur basisSize l r opt)))
           (snd (snd (dtr_step fp primme hVals cur basisSize l r opt)))"
  using assms by (auto simp: dtr_step_def dtr_region_def)

lemma dtr_search_invariant:
  "(snd (dtr_search fp primme hVals cur basisSize numFree lMin) = (lMin, 0)) \<or>
   dtr_region primme basisSize numFree lMin
     (fst (snd (dtr_search fp primme hVals cur basisSize numFree lMin)))
     (snd (snd (dtr_search fp primme hVals cur basisSize numFree lMin)))"
  unfolding dtr_search_def
proof (rule fold_invariant [where P = "\<lambda>opt. (snd opt = (lMin, 0)) \<or>
         dtr_region primme basisSize numFree lMin (fst (snd opt)) (snd (snd opt))"], goal_cases)
  case 1
  show ?case by simp
next
  case (2 l opt)
  then have l: "lMin \<le> l" "l < basisSize - numFree" by (auto simp: set_int_range)
  show ?case
  proof (rule fold_invariant [where P = "\<lambda>opt. (snd opt = (lMin, 0)) \<or>
         dtr_region primme basisSize numFree lMin (fst (snd opt)) (snd (snd opt))"], goal_cases)
    case 1
    show ?case using 2(2) .
  next
    case (2 r opt')
    then have r: "0 \<le> r" "r < basisSize - l - numFree" by (auto simp: set_int_range)
    show ?case by (rule dtr_step_invariant [OF l r 2(2)])
  qed
qed


lemma example_dtr_lMin: "dtr_lMin dtr_primme 0 dtr_flags 8 = 1"
  by (simp add: dtr_lMin_def dtr_primme_def example_primme_def)

lemma example_dtr_search:
  "dtr_search example_fpu dtr_primme dtr_hVals (rd dtr_hVals (rd [0] 0)) 8 3 1 = (6, 1, 1)"
  by (simp add: dtr_search_def dtr_step_def dtr_newVal_def dtr_primme_def dtr_hVals_def
      example_primme_def example_fpu_def restart_eval real_sqrt_divide)

lemma example_dtr_size:
  "fst (dtr_dprimme example_fpu 0 hVecs dtr_hVals dtr_flags 8 3 [0] dtr_primme) = 2"
  by (simp add: dtr_dprimme_def example_dtr_lMin example_dtr_search)

text \<open>
  \<^bold>\<open>C4\<close> fails as stated: the selector does not keep \<open>l + r\<close> a multiple of
  \<open>maxBlockSize\<close>. With \<open>basisSize = 8\<close>, \<open>numFree = 3\<close>, \<open>maxBlockSize = 3\<close>,
  \<open>lMin = 1\<close> and the Ritz values \<open>0, 1, 2, 3, 3, 4, 4, 15\<close> the search selects
  \<open>(lOpt, rOpt) = (1, 1)\<close>, where the objective is \<open>6 * sqrt ((0 - 2) / (2 - 4)) = 6\<close>;
  the restart size is 2, and it is \<open>basisSize - 2 = 6\<close> that is a multiple of 3.
\<close>

theorem dtr_sum_not_multiple_counterexample:
  "0 < dtr_lMin dtr_primme 0 dtr_flags 8
   \<and> dtr_lMin dtr_primme 0 dtr_flags 8 < 8 - 3
   \<and> dtr_search example_fpu dtr_primme dtr_hVals (rd dtr_hVals (rd [0] 0)) 8 3
        (dtr_lMin dtr_primme 0 dtr_flags 8) = (6, 1, 1)
   \<and> fst (dtr_dprimme example_fpu 0 (replicate 64 0) dtr_hVals dtr_flags 8 3 [0] dtr_primme) = 2
   \<and> (1 + 1) smod maxBlockSize dtr_primme \<noteq> 0
   \<and> (8 - 1 - 1) smod maxBlockSize dtr_primme = 0"
  by (simp add: example_dtr_lMin example_dtr_search example_dtr_size)
    (simp add: dtr_primme_def signed_modulo_int_def)

text \<open>
  \<^bold>\<open>C4\<close>, amended. For \<open>maxBlockSize > 0\<close> and \<open>0 < lMin \<le> basisSize - numFree\<close>, the
  selector returns \<open>lOpt + rOpt\<close> with \<open>0 < lOpt + rOpt \<le> basisSize - numFree\<close>. The pair
  is the initial one, \<open>(lMin, 0)\<close>, or it comes from the search region
  \<open>lMin \<le> l < basisSize - numFree\<close>, \<open>0 \<le> r < basisSize - l - numFree\<close> with
  \<open>basisSize - l - r\<close> a multiple of \<open>maxBlockSize\<close>.
\<close>

theorem dtr_restart_size_feasible:
  assumes "0 < maxBlockSize primme"
      and "0 < dtr_lMin primme numLocked flags basisSize"
      and "dtr_lMin primme numLocked flags basisSize \<le> basisSize - numFree"
      and "dtr_search fp primme hVals (rd hVals (rd iev 0)) basisSize numFree
             (dtr_lMin primme numLocked flags basisSize) = (optVal, lOpt, rOpt)"
  shows "fst (dtr_dprimme fp numLocked hVecs hVals flags basisSize numFree iev primme)
           = lOpt + rOpt
       \<and> 0 < lOpt + rOpt \<and> lOpt + rOpt \<le> basisSize - numFree
       \<and> ((lOpt = dtr_lMin primme numLocked flags basisSize \<and> rOpt = 0) \<or>
          (dtr_lMin primme numLocked flags basisSize \<le> lOpt \<and> lOpt < basisSize - numFree \<and>
           0 \<le> rOpt \<and> rOpt < basisSize - lOpt - numFree \<and>
           (basisSize - lOpt - rOpt) smod maxBlockSize primme = 0))"
proof -
  have r: "fst (dtr_dprimme fp numLocked hVecs hVals flags basisSize numFree iev primme)
             = lOpt + rOpt"
    using assms(4) by (simp add: dtr_dprimme_def)
  from dtr_search_invariant [of fp primme hVals "rd hVals (rd iev 0)" basisSize numFree
      "dtr_lMin primme numLocked flags basisSize"] assms(4)
  have "(lOpt = dtr_lMin primme numLocked flags basisSize \<and> rOpt = 0) \<or>
        dtr_region primme basisSize numFree (dtr_lMin primme numLocked flags basisSize) lOpt rOpt"
    by simp
  with r assms(2,3) show ?thesis
    by (auto simp: dtr_region_def)
qed

theorem dtr_restart_size_feasible_witness:
  "fst (dtr_dprimme example_fpu 0 (replicate 64 0) dtr_hVals dtr_flags 8 3 [0] dtr_primme) = 2
   \<and> (8 - 1 - 1) smod maxBlockSize dtr_primme = 0"
  using dtr_restart_size_feasible [of dtr_primme 0 dtr_flags 8 3 example_fpu dtr_hVals "[0]"
      6 1 1 "replicate 64 0"]
  by (simp add: example_dtr_lMin example_dtr_search) (simp add: dtr_primme_def)

subsection \<open>Resetting the flags\<close>










subsection \<open>Soft-locking restart\<close>

lemma recheck_step:
  "(\<lambda>i fl. if fl ! i \<noteq> UNCONVERGED \<and> P i then fl[i := UNCONVERGED] else fl) =
   (\<lambda>i fl. fl[i := (if fl ! i \<noteq> UNCONVERGED \<and> P i then UNCONVERGED else fl ! i)])"
proof (intro ext)
  fix i and fl :: "flag list"
  show "(if fl ! i \<noteq> UNCONVERGED \<and> P i then fl[i := UNCONVERGED] else fl) =
        fl[i := (if fl ! i \<noteq> UNCONVERGED \<and> P i then UNCONVERGED else fl ! i)]"
  proof (cases "fl ! i \<noteq> UNCONVERGED \<and> P i")
    case True
    then show ?thesis by simp
  next
    case False
    then have c: "(fl ! i \<noteq> UNCONVERGED \<and> P i) = False" by simp
    show ?thesis unfolding c by (simp only: if_False list_update_id)
  qed
qed

lemma nth_recheck_converged_flags:
  assumes "i < length flags"
  shows "recheck_converged_flags primme basisSize flags hVals evals resNorms ! i =
           (if basisSize + numOrthoConst primme < primme_n primme \<and>
               i < nat (numEvals primme) \<and> flags ! i \<noteq> UNCONVERGED \<and>
               \<bar>hVals ! i - evals ! i\<bar> > resNorms ! i
            then UNCONVERGED else flags ! i)"
  using assms
    nth_fold_upd [of i flags
      "\<lambda>i x. if x \<noteq> UNCONVERGED \<and> \<bar>hVals ! i - evals ! i\<bar> > resNorms ! i
              then UNCONVERGED else x"
      0 "nat (numEvals primme)"]
  by (simp add: recheck_converged_flags_def
      recheck_step [of "\<lambda>i. \<bar>hVals ! i - evals ! i\<bar> > resNorms ! i"])

lemma soft_locking_select_flags:
  "st_flags (snd (soft_locking_select primme restartSize basisSize ldhVecs evals resNorms
      previousHVecs ldpreviousHVecs numArbitraryVecs rp st)) =
   recheck_converged_flags primme basisSize (st_flags st) (st_hVals st) evals resNorms"
  by (simp add: soft_locking_select_def Let_def)

lemma soft_locking_finish_keeps:
  assumes "soft_locking_finish basisSize evecsHat rp hp lay st = Some st'"
  shows "st_flags st' = st_flags st" and "st_ievSize st' = 0"
  using assms by (auto simp: soft_locking_finish_def Let_def split: if_splits)

lemma soft_locking_returns:
  assumes "restart_soft_locking_dprimme K primme restartSize basisSize ldhVecs evals resNorms
             evecsHat previousHVecs ldpreviousHVecs numArbitraryVecs rp hp st
           = Some (ret, restartSize', index, st')"
  shows "st_flags st' = st_flags (snd (soft_locking_select primme restartSize basisSize ldhVecs
           evals resNorms previousHVecs ldpreviousHVecs numArbitraryVecs rp st))"
    and "restartSize' = sl_restartSize (fst (soft_locking_select primme restartSize basisSize
           ldhVecs evals resNorms previousHVecs ldpreviousHVecs numArbitraryVecs rp st))"
    and "ret = 0 \<Longrightarrow> st_ievSize st' = 0"
  using assms
  by (auto simp: restart_soft_locking_dprimme_def 
      split: prod.splits if_splits option.splits dest: soft_locking_finish_keeps)

lemma soft_locking_select_sizes:
  "sl_restartSize (fst (soft_locking_select primme restartSize basisSize ldhVecs evals resNorms
      previousHVecs ldpreviousHVecs numArbitraryVecs rp st)) =
     min (maxBasisSize primme) (restartSize + st_numPrevRetained st)"
  "st_ievSize (snd (soft_locking_select primme restartSize basisSize ldhVecs evals resNorms
      previousHVecs ldpreviousHVecs numArbitraryVecs rp st)) =
     min (min (maxBlockSize primme) (numEvals primme - st_numConverged st + 1))
         (maxBasisSize primme - min (maxBasisSize primme) (restartSize + st_numPrevRetained st))"
  by (simp_all add: soft_locking_select_def soft_locking_layout_def Let_def)


subsection \<open>Runs of the soft-locking restart\<close>

lemma small_select:
  "soft_locking_select example_primme 2 2 2 [0, 0] [0, 0] [] 2 0 0 small_basis_state =
     (\<lparr>sl_numPrevRetained = 0, sl_restartSize = 2, sl_ievSize = 1, sl_numCandidates = 1,
       sl_indexOfPreviousVecs = 1, sl_left = 1\<rparr>,
      small_basis_state\<lparr>st_iwork := [1, 0, 0, 0], st_hVals := [3, 1],
        st_hVecs := [0, 1, 1, 0]\<rparr>)"
proof -
  have a: "recheck_converged_flags example_primme 2 [UNCONVERGED, UNCONVERGED] [1, 3::real]
             [0, 0] [0, 0] = [UNCONVERGED, UNCONVERGED]"
    by (simp add: recheck_converged_flags_def example_primme_def restart_eval)
  have b: "soft_locking_layout example_primme 2 0 0 0 [UNCONVERGED, UNCONVERGED] =
             \<lparr>sl_numPrevRetained = 0, sl_restartSize = 2, sl_ievSize = 1, sl_numCandidates = 1,
              sl_indexOfPreviousVecs = 1, sl_left = 1\<rparr>"
    by (simp add: soft_locking_layout_def example_primme_def Let_def)
  have c: "build_restartPerm 2 1 1 [UNCONVERGED, UNCONVERGED] [0, 0, 0, 0] 0 = [1, 0, 0, 0]"
    by (simp add: build_restartPerm_def restart_eval)
  have d: "permute_vecs_dprimme [1, 3::real] 1 2 1 (\<lambda>i. rd [1, 0, 0, 0] (int i)) = [3, 1]"
    by (simp add: permute_vecs_dprimme_def restart_eval)
  have e: "permute_vecs_dprimme [1, 0, 0, 1::real] 2 2 2 (\<lambda>i. rd [1, 0, 0, 0] (int i))
             = [0, 1, 1, 0]"
    by (simp add: permute_vecs_dprimme_def restart_eval)
  have f: "count_converged example_primme 2 [UNCONVERGED, UNCONVERGED] = 0"
    by (simp add: count_converged_def restart_eval)
  have g: "Num_copy_matrix_dprimme [] 0 2 0 2 [0, 1, 1, 0::real] 2 2 = [0, 1, 1, 0]"
    by (simp add: Num_copy_matrix_dprimme_def)
  show ?thesis
    by (simp add: soft_locking_select_def small_basis_state_def Let_def a b c d e f g)
qed

lemma small_finish:
  "soft_locking_finish 2 False 0 2
     \<lparr>sl_numPrevRetained = 0, sl_restartSize = 2, sl_ievSize = 1, sl_numCandidates = 1,
       sl_indexOfPreviousVecs = 1, sl_left = 1\<rparr>
     (small_basis_state\<lparr>st_iwork := [1, 0, 0, 0], st_hVals := [3, 1],
        st_hVecs := [0, 1, 1, 0]\<rparr>) =
   Some (small_basis_state\<lparr>st_iwork := [1, 0, 1, 0], st_hVals := [3, 1],
           st_hVecs := [0, 1, 1, 0], st_ievSize := 0\<rparr>)"
proof -
  have h: "build_hVecsPerm 2 0
     \<lparr>sl_numPrevRetained = 0, sl_restartSize = 2, sl_ievSize = 1, sl_numCandidates = 1,
       sl_indexOfPreviousVecs = 1, sl_left = 1\<rparr> [1, 0, 0, 0] 0 2 = [1, 0, 1, 0]"
    by (simp add: build_hVecsPerm_def restart_eval Let_def)
  have c: "candidates_in_place 2 [UNCONVERGED, UNCONVERGED] [0] 1"
    by (simp add: candidates_in_place_def restart_eval)
  show ?thesis
    by (simp add: soft_locking_finish_def small_basis_state_def Let_def h c restart_eval)
qed

lemma small_soft_locking:
  "restart_soft_locking_dprimme example_kernels example_primme 2 2 2 [0, 0] [0, 0] False [] 2 0
     0 2 small_basis_state =
   Some (0, 2, 1, small_basis_state\<lparr>st_iwork := [1, 0, 1, 0], st_hVals := [3, 1],
           st_hVecs := [0, 1, 1, 0], st_ievSize := 0\<rparr>)"
proof -
  have o: "ortho_coefficient_vectors_dprimme example_kernels example_primme hv 2 2 1 2 0 = (0, hv)"
    for hv :: "real list"
    by (simp add: ortho_coefficient_vectors_dprimme_def example_kernels_def example_primme_def)
  have u: "k_update_VWXR example_kernels = 0" by (simp add: example_kernels_def)
  show ?thesis
    unfolding restart_soft_locking_dprimme_def small_select
    by (simp add: o u small_finish [simplified])
qed

lemma drifted_soft_locking:
  "restart_soft_locking_dprimme example_kernels example_primme 2 2 2 [5, 3] [1, 1] False [] 2 0
     0 2 drifted_state =
   Some (0, 2, 1, small_basis_state\<lparr>st_iwork := [1, 0, 1, 0], st_hVals := [3, 1],
           st_hVecs := [0, 1, 1, 0], st_ievSize := 0\<rparr>)"
proof -
  have a: "recheck_converged_flags example_primme 2 [CONVERGED, UNCONVERGED] [1, 3::real]
             [5, 3] [1, 1] = [UNCONVERGED, UNCONVERGED]"
    by (simp add: recheck_converged_flags_def example_primme_def restart_eval)
  have b: "soft_locking_layout example_primme 2 0 1 0 [UNCONVERGED, UNCONVERGED] =
             \<lparr>sl_numPrevRetained = 0, sl_restartSize = 2, sl_ievSize = 1, sl_numCandidates = 1,
              sl_indexOfPreviousVecs = 1, sl_left = 1\<rparr>"
    by (simp add: soft_locking_layout_def example_primme_def Let_def)
  have c: "build_restartPerm 2 1 1 [UNCONVERGED, UNCONVERGED] [0, 0, 0, 0] 0 = [1, 0, 0, 0]"
    by (simp add: build_restartPerm_def restart_eval)
  have d: "permute_vecs_dprimme [1, 3::real] 1 2 1 (\<lambda>i. rd [1, 0, 0, 0] (int i)) = [3, 1]"
    by (simp add: permute_vecs_dprimme_def restart_eval)
  have e: "permute_vecs_dprimme [1, 0, 0, 1::real] 2 2 2 (\<lambda>i. rd [1, 0, 0, 0] (int i))
             = [0, 1, 1, 0]"
    by (simp add: permute_vecs_dprimme_def restart_eval)
  have f: "count_converged example_primme 2 [UNCONVERGED, UNCONVERGED] = 0"
    by (simp add: count_converged_def restart_eval)
  have g: "Num_copy_matrix_dprimme [] 0 2 0 2 [0, 1, 1, 0::real] 2 2 = [0, 1, 1, 0]"
    by (simp add: Num_copy_matrix_dprimme_def)
  have s: "soft_locking_select example_primme 2 2 2 [5, 3] [1, 1] [] 2 0 0 drifted_state =
     (\<lparr>sl_numPrevRetained = 0, sl_restartSize = 2, sl_ievSize = 1, sl_numCandidates = 1,
       sl_indexOfPreviousVecs = 1, sl_left = 1\<rparr>,
      small_basis_state\<lparr>st_iwork := [1, 0, 0, 0], st_hVals := [3, 1],
        st_hVecs := [0, 1, 1, 0]\<rparr>)"
    by (simp add: soft_locking_select_def drifted_state_def small_basis_state_def Let_def
        a b c d e f g)
  have o: "ortho_coefficient_vectors_dprimme example_kernels example_primme hv 2 2 1 2 0 = (0, hv)"
    for hv :: "real list"
    by (simp add: ortho_coefficient_vectors_dprimme_def example_kernels_def example_primme_def)
  have u: "k_update_VWXR example_kernels = 0" by (simp add: example_kernels_def)
  show ?thesis
    unfolding restart_soft_locking_dprimme_def s
    by (simp add: o u small_finish [simplified])
qed

lemma spanning_soft_locking:
  "restart_soft_locking_dprimme example_kernels (example_primme\<lparr>primme_n := 2\<rparr>) 2 2 2 [5, 3]
     [1, 1] False [] 2 0 0 2 drifted_state =
   Some (0, 2, 1, drifted_state\<lparr>st_iwork := [0, 1, 0, 1], st_iev := [1], st_ievSize := 0\<rparr>)"
proof -
  have a: "recheck_converged_flags (example_primme\<lparr>primme_n := 2\<rparr>) 2 [CONVERGED, UNCONVERGED]
             [1, 3::real] [5, 3] [1, 1] = [CONVERGED, UNCONVERGED]"
    by (simp add: recheck_converged_flags_def example_primme_def)
  have b: "soft_locking_layout (example_primme\<lparr>primme_n := 2\<rparr>) 2 0 1 0
             [CONVERGED, UNCONVERGED] =
             \<lparr>sl_numPrevRetained = 0, sl_restartSize = 2, sl_ievSize = 1, sl_numCandidates = 1,
              sl_indexOfPreviousVecs = 1, sl_left = 1\<rparr>"
    by (simp add: soft_locking_layout_def example_primme_def Let_def)
  have c: "build_restartPerm 2 1 1 [CONVERGED, UNCONVERGED] [0, 0, 0, 0] 0 = [0, 1, 0, 0]"
    by (simp add: build_restartPerm_def restart_eval)
  have d: "permute_vecs_dprimme [1, 3::real] 1 2 1 (\<lambda>i. rd [0, 1, 0, 0] (int i)) = [1, 3]"
    by (simp add: permute_vecs_dprimme_def restart_eval)
  have e: "permute_vecs_dprimme [1, 0, 0, 1::real] 2 2 2 (\<lambda>i. rd [0, 1, 0, 0] (int i))
             = [1, 0, 0, 1]"
    by (simp add: permute_vecs_dprimme_def restart_eval)
  have f: "count_converged (example_primme\<lparr>primme_n := 2\<rparr>) 2 [CONVERGED, UNCONVERGED] = 1"
    by (simp add: count_converged_def example_primme_def restart_eval)
  have g: "Num_copy_matrix_dprimme [] 0 2 0 2 [1, 0, 0, 1::real] 2 2 = [1, 0, 0, 1]"
    by (simp add: Num_copy_matrix_dprimme_def)
  have s: "soft_locking_select (example_primme\<lparr>primme_n := 2\<rparr>) 2 2 2 [5, 3] [1, 1] [] 2 0 0
             drifted_state =
     (\<lparr>sl_numPrevRetained = 0, sl_restartSize = 2, sl_ievSize = 1, sl_numCandidates = 1,
       sl_indexOfPreviousVecs = 1, sl_left = 1\<rparr>,
      drifted_state\<lparr>st_iwork := [0, 1, 0, 0]\<rparr>)"
    by (simp add: soft_locking_select_def drifted_state_def small_basis_state_def Let_def
        a b c d e f g)
  have h: "build_hVecsPerm 2 0
     \<lparr>sl_numPrevRetained = 0, sl_restartSize = 2, sl_ievSize = 1, sl_numCandidates = 1,
       sl_indexOfPreviousVecs = 1, sl_left = 1\<rparr> [0, 1, 0, 0] 0 2 = [0, 1, 0, 1]"
    by (simp add: build_hVecsPerm_def restart_eval Let_def)
  have p: "candidates_in_place 2 [CONVERGED, UNCONVERGED] [1] 1"
    by (simp add: candidates_in_place_def restart_eval)
  have t: "soft_locking_finish 2 False 0 2
     \<lparr>sl_numPrevRetained = 0, sl_restartSize = 2, sl_ievSize = 1, sl_numCandidates = 1,
       sl_indexOfPreviousVecs = 1, sl_left = 1\<rparr> (drifted_state\<lparr>st_iwork := [0, 1, 0, 0]\<rparr>) =
     Some (drifted_state\<lparr>st_iwork := [0, 1, 0, 1], st_iev := [1], st_ievSize := 0\<rparr>)"
    by (simp add: soft_locking_finish_def drifted_state_def small_basis_state_def Let_def h p
        restart_eval)
  have o: "ortho_coefficient_vectors_dprimme example_kernels (example_primme\<lparr>primme_n := 2\<rparr>)
             hv 2 2 1 2 0 = (0, hv)"
    for hv :: "real list"
    by (simp add: ortho_coefficient_vectors_dprimme_def example_kernels_def example_primme_def)
  have u: "k_update_VWXR example_kernels = 0" by (simp add: example_kernels_def)
  show ?thesis
    unfolding restart_soft_locking_dprimme_def s
    by (simp add: o u t [simplified])
qed

lemma full_select:
  "soft_locking_select full_basis_primme 1 3 3 [0] [0] [0, 1, 0] 3 0 0 full_basis_state =
     (\<lparr>sl_numPrevRetained = 1, sl_restartSize = 2, sl_ievSize = 1, sl_numCandidates = 1,
       sl_indexOfPreviousVecs = 0, sl_left = 1\<rparr>,
      full_basis_state\<lparr>st_iwork := [1, 0, 2, 0, 0, 0], st_hVals := [2, 1, 3],
        st_hVecs := [0, 1, 0,  1, 0, 0,  0, 0, 1]\<rparr>)"
proof -
  have a: "recheck_converged_flags full_basis_primme 3 [UNCONVERGED, UNCONVERGED, UNCONVERGED]
             [1, 2, 3::real] [0] [0] = [UNCONVERGED, UNCONVERGED, UNCONVERGED]"
    by (simp add: recheck_converged_flags_def full_basis_primme_def example_primme_def
        restart_eval)
  have l: "soft_locking_layout full_basis_primme 1 1 0 0
             [UNCONVERGED, UNCONVERGED, UNCONVERGED] =
           \<lparr>sl_numPrevRetained = 1, sl_restartSize = 2, sl_ievSize = 1, sl_numCandidates = 1,
            sl_indexOfPreviousVecs = 0, sl_left = 1\<rparr>"
    by (simp add: soft_locking_layout_def full_basis_primme_def example_primme_def Let_def)
  have b: "build_restartPerm 3 1 1 [UNCONVERGED, UNCONVERGED, UNCONVERGED] [0, 0, 0, 0, 0, 0] 0
             = [1, 0, 2, 0, 0, 0]"
    by (simp add: build_restartPerm_def restart_eval)
  have c: "count_converged full_basis_primme 3 [UNCONVERGED, UNCONVERGED, UNCONVERGED] = 0"
    by (simp add: count_converged_def restart_eval)
  have d: "permute_vecs_dprimme [1, 2, 3::real] 1 3 1 (\<lambda>i. rd [1, 0, 2, 0, 0, 0] (int i))
             = [2, 1, 3]"
    by (simp add: permute_vecs_dprimme_def restart_eval)
  have e: "permute_vecs_dprimme [1, 0, 0, 0, 1, 0, 0, 0, 1::real] 3 3 3
             (\<lambda>i. rd [1, 0, 2, 0, 0, 0] (int i)) = [0, 1, 0, 1, 0, 0, 0, 0, 1]"
    by (simp add: permute_vecs_dprimme_def restart_eval)
  have f: "Num_copy_matrix_dprimme [0, 1, 0] 0 3 1 3 [0, 1, 0, 1, 0, 0, 0, 0, 1::real] 0 3
             = [0, 1, 0, 1, 0, 0, 0, 0, 1]"
    by (simp add: Num_copy_matrix_dprimme_def restart_eval)
  show ?thesis
    by (simp add: soft_locking_select_def full_basis_state_def Let_def a b c d e f l)
qed

lemma full_finish:
  "soft_locking_finish 3 evecsHat 0 3
     \<lparr>sl_numPrevRetained = 1, sl_restartSize = 2, sl_ievSize = 1, sl_numCandidates = 1,
       sl_indexOfPreviousVecs = 0, sl_left = 1\<rparr>
     (full_basis_state\<lparr>st_iwork := [1, 0, 2, 0, 0, 0], st_hVals := [2, 1, 3],
        st_hVecs := [0, 1, 0,  1, 0, 0,  0, 0, 1]\<rparr>) = Some full_basis_locked"
proof -
  have h: "build_hVecsPerm 3 0
     \<lparr>sl_numPrevRetained = 1, sl_restartSize = 2, sl_ievSize = 1, sl_numCandidates = 1,
       sl_indexOfPreviousVecs = 0, sl_left = 1\<rparr> [1, 0, 2, 0, 0, 0] 0 3 = [1, 0, 2, 1, 0, 2]"
    by (simp add: build_hVecsPerm_def restart_eval Let_def)
  have p: "pack_converged 0 0 iw 0 = 0" for iw
    by (simp add: pack_converged_def)
  have c: "candidates_in_place 3 [UNCONVERGED, UNCONVERGED, UNCONVERGED] [0] 1"
    by (simp add: candidates_in_place_def restart_eval)
  show ?thesis
    by (simp add: soft_locking_finish_def full_basis_state_def full_basis_locked_def Let_def h p c
        restart_eval)
qed

lemma full_soft_locking:
  assumes "k_ortho K = k_ortho example_kernels" and "k_update_VWXR K = 0"
  shows "restart_soft_locking_dprimme K full_basis_primme 1 3 3 [0] [0] evecsHat [0, 1, 0] 3 0 0 3
           full_basis_state = Some (0, 2, 0, full_basis_locked)"
proof -
  have o: "ortho_coefficient_vectors_dprimme K full_basis_primme hv 3 3 0 2 1 = (0, hv)"
    for hv :: "real list"
    by (simp add: ortho_coefficient_vectors_dprimme_def assms(1) example_kernels_def
        full_basis_primme_def example_primme_def)
  show ?thesis
    unfolding restart_soft_locking_dprimme_def full_select
    by (simp add: o assms(2) full_finish [simplified])
qed

lemma full_soft_locking_example:
  "restart_soft_locking_dprimme example_kernels full_basis_primme 1 3 3 [0] [0] evecsHat
     [0, 1, 0] 3 0 0 3 full_basis_state = Some (0, 2, 0, full_basis_locked)"
  by (rule full_soft_locking) (simp_all add: example_kernels_def)


text \<open>
  \<^bold>\<open>C5\<close> fails as stated: the re-examination is skipped when the basis, with the
  orthogonality constraints, spans the whole space. With \<open>n = 2\<close>, \<open>basisSize = 2\<close>, a
  first flag \<open>CONVERGED\<close>, \<open>hVals[0] = 1\<close>, \<open>evals[0] = 5\<close> and \<open>resNorms[0] = 1\<close>, the
  inequality \<open>|1 - 5| > 1\<close> holds and the flag stays \<open>CONVERGED\<close>, after the first step and
  when the routine returns.
\<close>

theorem recheck_skipped_counterexample:
  "0 < numEvals (example_primme\<lparr>primme_n := 2\<rparr>)
   \<and> st_flags drifted_state ! 0 \<noteq> UNCONVERGED
   \<and> \<bar>st_hVals drifted_state ! 0 - [5, 3] ! 0\<bar> > [1, 1::real] ! 0
   \<and> st_flags (snd (soft_locking_select (example_primme\<lparr>primme_n := 2\<rparr>) 2 2 2 [5, 3] [1, 1]
                       [] 2 0 0 drifted_state)) ! 0 = CONVERGED
   \<and> map_option (\<lambda>r. st_flags (snd (snd (snd r))) ! 0)
        (restart_soft_locking_dprimme example_kernels (example_primme\<lparr>primme_n := 2\<rparr>) 2 2 2
           [5, 3] [1, 1] False [] 2 0 0 2 drifted_state) = Some CONVERGED"
  by (simp add: spanning_soft_locking soft_locking_select_flags recheck_converged_flags_def)
    (simp add: example_primme_def drifted_state_def small_basis_state_def)

text \<open>
  \<^bold>\<open>C5\<close>, amended. The first step of the soft-locking restart does this to the flags:
  when \<open>basisSize + numOrthoConst < n\<close>, the flag of every index \<open>i < numEvals\<close> whose flag
  is not \<open>UNCONVERGED\<close> and for which \<open>|hVals[i] - evals[i]| > resNorms[i]\<close> is reset to
  \<open>UNCONVERGED\<close>, and every other flag is unchanged; when \<open>basisSize + numOrthoConst \<ge> n\<close>
  no flag is changed. The flags are not written again: whatever the routine returns, they
  are those that the first step has left.
\<close>

theorem soft_locking_rechecks_flags:
  "(i < length (st_flags st) \<longrightarrow>
      st_flags (snd (soft_locking_select primme restartSize basisSize ldhVecs evals resNorms
                       previousHVecs ldpreviousHVecs numArbitraryVecs rp st)) ! i =
        (if basisSize + numOrthoConst primme < primme_n primme \<and> i < nat (numEvals primme) \<and>
            st_flags st ! i \<noteq> UNCONVERGED \<and> \<bar>st_hVals st ! i - evals ! i\<bar> > resNorms ! i
         then UNCONVERGED else st_flags st ! i))
   \<and> (\<not> basisSize + numOrthoConst primme < primme_n primme \<longrightarrow>
        st_flags (snd (soft_locking_select primme restartSize basisSize ldhVecs evals resNorms
                         previousHVecs ldpreviousHVecs numArbitraryVecs rp st)) = st_flags st)
   \<and> (restart_soft_locking_dprimme K primme restartSize basisSize ldhVecs evals resNorms
         evecsHat previousHVecs ldpreviousHVecs numArbitraryVecs rp hp st
       = Some (ret, restartSize', index, st') \<longrightarrow>
        st_flags st' =
          st_flags (snd (soft_locking_select primme restartSize basisSize ldhVecs evals resNorms
                           previousHVecs ldpreviousHVecs numArbitraryVecs rp st)))"
proof (intro conjI impI)
  assume "i < length (st_flags st)"
  then show "st_flags (snd (soft_locking_select primme restartSize basisSize ldhVecs evals
                              resNorms previousHVecs ldpreviousHVecs numArbitraryVecs rp st)) ! i =
        (if basisSize + numOrthoConst primme < primme_n primme \<and> i < nat (numEvals primme) \<and>
            st_flags st ! i \<noteq> UNCONVERGED \<and> \<bar>st_hVals st ! i - evals ! i\<bar> > resNorms ! i
         then UNCONVERGED else st_flags st ! i)"
    by (simp only: soft_locking_select_flags nth_recheck_converged_flags)
next
  assume "\<not> basisSize + numOrthoConst primme < primme_n primme"
  then show "st_flags (snd (soft_locking_select primme restartSize basisSize ldhVecs evals
                              resNorms previousHVecs ldpreviousHVecs numArbitraryVecs rp st))
               = st_flags st"
    by (simp add: soft_locking_select_flags recheck_converged_flags_def)
next
  assume "restart_soft_locking_dprimme K primme restartSize basisSize ldhVecs evals resNorms
            evecsHat previousHVecs ldpreviousHVecs numArbitraryVecs rp hp st
          = Some (ret, restartSize', index, st')"
  then show "st_flags st' =
          st_flags (snd (soft_locking_select primme restartSize basisSize ldhVecs evals resNorms
                           previousHVecs ldpreviousHVecs numArbitraryVecs rp st))"
    by (rule soft_locking_returns(1))
qed

theorem soft_locking_rechecks_flags_witness:
  "st_flags drifted_state = [CONVERGED, UNCONVERGED]
   \<and> st_flags (snd (soft_locking_select example_primme 2 2 2 [5, 3] [1, 1] [] 2 0 0
                       drifted_state)) ! 0 = UNCONVERGED
   \<and> map_option (\<lambda>r. st_flags (snd (snd (snd r))))
        (restart_soft_locking_dprimme example_kernels example_primme 2 2 2 [5, 3] [1, 1] False []
           2 0 0 2 drifted_state) = Some [UNCONVERGED, UNCONVERGED]
   \<and> st_flags (snd (soft_locking_select (example_primme\<lparr>primme_n := 2\<rparr>) 2 2 2 [5, 3] [1, 1]
                       [] 2 0 0 drifted_state)) = [CONVERGED, UNCONVERGED]
   \<and> map_option (\<lambda>r. st_flags (snd (snd (snd r))))
        (restart_soft_locking_dprimme example_kernels (example_primme\<lparr>primme_n := 2\<rparr>) 2 2 2
           [5, 3] [1, 1] False [] 2 0 0 2 drifted_state) = Some [CONVERGED, UNCONVERGED]"
  using soft_locking_rechecks_flags [where i = 0 and st = drifted_state and primme = example_primme
      and restartSize = 2 and basisSize = 2 and ldhVecs = 2 and evals = "[5, 3]"
      and resNorms = "[1, 1]" and previousHVecs = "[]" and ldpreviousHVecs = 2
      and numArbitraryVecs = 0 and rp = 0 and K = example_kernels and evecsHat = False
      and hp = 2 and ret = 0 and restartSize' = 2 and index = 1
      and st' = "small_basis_state\<lparr>st_iwork := [1, 0, 1, 0], st_hVals := [3, 1],
                   st_hVecs := [0, 1, 1, 0], st_ievSize := 0\<rparr>"]
    soft_locking_rechecks_flags [where i = 0 and st = drifted_state
      and primme = "example_primme\<lparr>primme_n := 2\<rparr>"
      and restartSize = 2 and basisSize = 2 and ldhVecs = 2 and evals = "[5, 3]"
      and resNorms = "[1, 1]" and previousHVecs = "[]" and ldpreviousHVecs = 2
      and numArbitraryVecs = 0 and rp = 0 and K = example_kernels and evecsHat = False
      and hp = 2 and ret = 0 and restartSize' = 2 and index = 1
      and st' = "drifted_state\<lparr>st_iwork := [0, 1, 0, 1], st_iev := [1], st_ievSize := 0\<rparr>"]
  by (simp add: drifted_soft_locking spanning_soft_locking)
    (simp add: example_primme_def drifted_state_def small_basis_state_def)

text \<open>
  \<^bold>\<open>C7.\<close> When the soft-locking restart returns 0, \<^verbatim>\<open>*ievSize\<close> is 0. During the
  call, at the point where the candidate block is sized, it holds the minimum of
  \<open>maxBlockSize\<close>, of \<open>numEvals - numConverged + 1\<close> (with \<open>numConverged\<close> as on entry) and
  of \<open>maxBasisSize - restartSize\<close> (with the restart size that the routine returns).
\<close>

theorem soft_locking_block_empty:
  assumes "restart_soft_locking_dprimme K primme restartSize basisSize ldhVecs evals resNorms
             evecsHat previousHVecs ldpreviousHVecs numArbitraryVecs rp hp st
           = Some (0, restartSize', index, st')"
  shows "st_ievSize st' = 0
       \<and> st_ievSize (snd (soft_locking_select primme restartSize basisSize ldhVecs evals resNorms
            previousHVecs ldpreviousHVecs numArbitraryVecs rp st)) =
           min (min (maxBlockSize primme) (numEvals primme - st_numConverged st + 1))
               (maxBasisSize primme - restartSize')"
  using soft_locking_returns(2,3) [OF assms]
  by (simp add: soft_locking_select_sizes)

theorem soft_locking_block_empty_witness:
  "restart_soft_locking_dprimme example_kernels full_basis_primme 1 3 3 [0] [0] False [0, 1, 0]
     3 0 0 3 full_basis_state = Some (0, 2, 0, full_basis_locked)
   \<and> st_ievSize full_basis_locked = 0
   \<and> st_ievSize (snd (soft_locking_select full_basis_primme 1 3 3 [0] [0] [0, 1, 0] 3 0 0
                       full_basis_state)) = 1"
  using soft_locking_block_empty [of example_kernels full_basis_primme 1 3 3 "[0]" "[0]" False
      "[0, 1, 0]" 3 0 0 3 full_basis_state 2 0 full_basis_locked]
  by (simp add: full_soft_locking_example)
    (simp add: full_basis_primme_def example_primme_def full_basis_state_def)

subsection \<open>The size reported by \<^verbatim>\<open>restart_dprimme\<close>\<close>

lemma restart_after_soft_locking:
  assumes "\<not> locking primme"
      and "target primme = primme_smallest"
      and "restart_select_size fp primme basisSize st = (restartSize0, st0)"
      and "restart_soft_locking_dprimme K primme restartSize0 basisSize ldhVecs evals resNorms
             evecsHat previousHVecs ldpreviousHVecs numArbitraryVecs 0 basisSize st0
           = Some (0, restartSize, index, st1)"
  shows "restart_dprimme K fp primme basisSize ldH ldhVecs newldhVecs evals resNorms evecsHat
           previousHVecs ldpreviousHVecs numArbitraryVecs st =
         map_option (\<lambda>r. (0, (snd r)\<lparr>st_restartSizeOutput := restartSize\<rparr>))
           (restart_projection_dprimme K primme ldH ldhVecs
              (if newldhVecs = 0 then restartSize else newldhVecs) restartSize basisSize
              (st_numPrevRetained st1) index evecsHat (st_numConverged st1) basisSize st1)"
  using assms by (simp add: restart_dprimme_def Let_def split: option.splits)

lemma restart_success_size:
  assumes "\<not> locking primme"
      and "restart_select_size fp primme basisSize st = (restartSize0, st0)"
      and "restart_dprimme K fp primme basisSize ldH ldhVecs newldhVecs evals resNorms evecsHat
             previousHVecs ldpreviousHVecs numArbitraryVecs st = Some (0, st')"
  shows "st_restartSizeOutput st' = min (maxBasisSize primme) (restartSize0 + st_numPrevRetained st0)"
proof -
  from assms obtain rs idx st1 where
    sl: "restart_soft_locking_dprimme K primme restartSize0 basisSize ldhVecs evals resNorms
           evecsHat previousHVecs ldpreviousHVecs numArbitraryVecs 0 basisSize st0
         = Some (0, rs, idx, st1)"
    and out: "st_restartSizeOutput st' = rs"
    by (auto simp: restart_dprimme_def Let_def split: option.splits if_splits)
  from soft_locking_returns(2) [OF sl] out show ?thesis
    by (simp add: soft_locking_select_sizes)
qed

lemma select_size_not_full:
  assumes "basisSize \<le> maxBasisSize primme - maxBlockSize primme"
  shows "restart_select_size fp primme basisSize st =
           (if primme_n primme \<le> basisSize + st_numLocked st + numOrthoConst primme
            then (basisSize,
                  st\<lparr>st_flags := fst (flag_all_converged primme basisSize (st_flags st)
                                        (st_numConverged st)),
                     st_numConverged := snd (flag_all_converged primme basisSize (st_flags st)
                                               (st_numConverged st)),
                     st_numPrevRetained := 0\<rparr>)
            else (basisSize, st))"
  using assms by (simp add: restart_select_size_def split: prod.splits)

lemma small_select_size:
  "restart_select_size fp example_primme 2 small_basis_state = (2, small_basis_state)"
  by (simp add: restart_select_size_def example_primme_def small_basis_state_def)

lemma small_RR:
  "restart_RR example_kernels [1, 0, 0, 3] 2 [0, 1, 1, 0] 2 2 [3, 1] 2 2 0 1
     (\<lambda>i. rd [1, 0, 1, 0] (2 + int i)) = Some (0, [3, 0, 0, 1], [0, 1, 1, 0], [1, 3])"
proof -
  have a: "k_compute_submatrix example_kernels X xo 0 ldX H nH ldH ro ldR = H"
    for X xo ldX H nH ldH ro ldR
    by (simp add: example_kernels_def compute_submatrix_exact_def)
  have b: "k_solve_H example_kernels H ho 0 ldH hv vo ldv hvals valo = (0, hv, hvals)"
    for H ho ldH hv vo ldv hvals valo
    by (simp add: example_kernels_def solve_H_diagonal_def)
  have c: "restart_RR_H [1, 0, 0, 3::real] 2 [3, 1] 2 0 1 = [3, 0, 0, 1]"
    by (simp add: restart_RR_H_def restart_eval Let_def)
  have d: "restart_RR_hVecs [0, 1, 1, 0::real] 2 2 (\<lambda>i. rd [1, 0, 1, 0] (2 + int i))
             = [0, 1, 1, 0]"
    by (simp add: restart_RR_hVecs_def restart_eval)
  have e: "permute_vecs_dprimme [3, 1::real] 1 2 1 (\<lambda>i. rd [1, 0, 1, 0] (2 + int i)) = [1, 3]"
    by (simp add: permute_vecs_dprimme_def restart_eval)
  have f: "orderedIndexOfPreviousVecs 2 1 (\<lambda>i. rd [1, 0, 1, 0] (2 + int i)) = 0"
    by (simp add: orderedIndexOfPreviousVecs_def restart_eval)
  show ?thesis
    by (simp add: restart_RR_def Let_def a b c d e f)
qed

lemma small_run:
  "restart_dprimme example_kernels fp example_primme 2 2 2 0 [0, 0] [0, 0] False [] 2 0
     small_basis_state =
   Some (0, small_basis_state\<lparr>st_hVecs := [0, 1, 1, 0], st_H := [3, 0, 0, 1],
              st_iwork := [1, 0, 1, 0], st_ievSize := 0, st_restartSizeOutput := 2\<rparr>)"
proof -
  have p: "restart_projection_dprimme example_kernels example_primme 2 2 2 2 2 0 1 False 0 2
     (small_basis_state\<lparr>st_iwork := [1, 0, 1, 0], st_hVals := [3, 1],
        st_hVecs := [0, 1, 1, 0], st_ievSize := 0\<rparr>) =
     Some (0, small_basis_state\<lparr>st_iwork := [1, 0, 1, 0], st_hVals := [1, 3],
        st_hVecs := [0, 1, 1, 0], st_ievSize := 0, st_H := [3, 0, 0, 1]\<rparr>)"
    by (simp add: restart_projection_dprimme_def small_basis_state_def example_primme_def small_RR)
  have l: "\<not> locking example_primme" "target example_primme = primme_smallest"
    by (simp_all add: example_primme_def)
  have n: "st_numPrevRetained (small_basis_state\<lparr>st_iwork := [1, 0, 1, 0], st_hVals := [3, 1],
             st_hVecs := [0, 1, 1, 0], st_ievSize := 0\<rparr>) = 0"
    "st_numConverged (small_basis_state\<lparr>st_iwork := [1, 0, 1, 0], st_hVals := [3, 1],
             st_hVecs := [0, 1, 1, 0], st_ievSize := 0\<rparr>) = 0"
    by (simp_all add: small_basis_state_def)
  show ?thesis
    unfolding restart_after_soft_locking [OF l small_select_size small_soft_locking]
    by (simp add: n p) (simp add: small_basis_state_def)
qed

text \<open>
  \<^bold>\<open>C2\<close> fails as stated: a restart of a basis that is not full still rewrites the basis
  in its Ritz vectors, with the candidate of the block moved last. With a basis of 2 where
  5 are allowed, \<open>H = diag(1, 3)\<close> with its own eigenpairs and nothing retained, the
  restart returns 0 and reports size 2, which is \<open>basisSize\<close>, but it returns
  \<open>H = diag(3, 1)\<close> with the coefficient vectors exchanged.
\<close>

theorem restart_not_full_counterexample:
  "2 \<le> maxBasisSize example_primme - maxBlockSize example_primme
   \<and> map_option fst
        (restart_dprimme example_kernels example_fpu example_primme 2 2 2 0 [0, 0] [0, 0] False
           [] 2 0 small_basis_state) = Some 0
   \<and> map_option (\<lambda>r. st_restartSizeOutput (snd r))
        (restart_dprimme example_kernels example_fpu example_primme 2 2 2 0 [0, 0] [0, 0] False
           [] 2 0 small_basis_state) = Some 2
   \<and> st_H small_basis_state = [1, 0, 0, 3]
   \<and> map_option (\<lambda>r. st_H (snd r))
        (restart_dprimme example_kernels example_fpu example_primme 2 2 2 0 [0, 0] [0, 0] False
           [] 2 0 small_basis_state) = Some [3, 0, 0, 1]
   \<and> st_hVecs small_basis_state = [1, 0, 0, 1]
   \<and> map_option (\<lambda>r. st_hVecs (snd r))
        (restart_dprimme example_kernels example_fpu example_primme 2 2 2 0 [0, 0] [0, 0] False
           [] 2 0 small_basis_state) = Some [0, 1, 1, 0]"
  by (simp add: small_run) (simp add: example_primme_def small_basis_state_def)

text \<open>
  \<^bold>\<open>C2\<close>, amended. In every state with \<open>basisSize \<le> maxBasisSize - maxBlockSize\<close> the
  restart size chosen before the locking phase is \<open>basisSize\<close>. Without hard locking, when
  no vector is retained from the previous iteration (\<open>numPrevRetained = 0\<close> on entry, or the
  basis with the locked vectors and the constraints spans the whole space, where the
  routine sets it to 0), a call that returns 0 reports \<open>restartSize = basisSize\<close>.
\<close>

theorem restart_not_full_size:
  assumes "basisSize \<le> maxBasisSize primme - maxBlockSize primme"
      and "0 \<le> maxBlockSize primme"
  shows "fst (restart_select_size fp primme basisSize st) = basisSize
       \<and> (\<not> locking primme \<and>
          (st_numPrevRetained st = 0 \<or>
           primme_n primme \<le> basisSize + st_numLocked st + numOrthoConst primme) \<and>
          restart_dprimme K fp primme basisSize ldH ldhVecs newldhVecs evals resNorms evecsHat
            previousHVecs ldpreviousHVecs numArbitraryVecs st = Some (0, st')
          \<longrightarrow> st_restartSizeOutput st' = basisSize)"
proof (intro conjI impI)
  show s: "fst (restart_select_size fp primme basisSize st) = basisSize"
    by (simp add: select_size_not_full [OF assms(1)])
  assume h: "\<not> locking primme \<and>
          (st_numPrevRetained st = 0 \<or>
           primme_n primme \<le> basisSize + st_numLocked st + numOrthoConst primme) \<and>
          restart_dprimme K fp primme basisSize ldH ldhVecs newldhVecs evals resNorms evecsHat
            previousHVecs ldpreviousHVecs numArbitraryVecs st = Some (0, st')"
  obtain st0 where s0: "restart_select_size fp primme basisSize st = (basisSize, st0)"
    using s by (metis prod.collapse)
  have n0: "st_numPrevRetained st0 = 0"
    using s0 h select_size_not_full [OF assms(1), of fp st] by (auto split: if_splits)
  from h have "st_restartSizeOutput st' =
                 min (maxBasisSize primme) (basisSize + st_numPrevRetained st0)"
    using restart_success_size [OF _ s0] by blast
  with n0 assms show "st_restartSizeOutput st' = basisSize" by simp
qed

theorem restart_not_full_size_witness:
  "2 \<le> maxBasisSize example_primme - maxBlockSize example_primme
   \<and> \<not> locking example_primme
   \<and> st_numPrevRetained small_basis_state = 0
   \<and> map_option fst
        (restart_dprimme example_kernels example_fpu example_primme 2 2 2 0 [0, 0] [0, 0] False
           [] 2 0 small_basis_state) = Some 0
   \<and> map_option (\<lambda>r. st_restartSizeOutput (snd r))
        (restart_dprimme example_kernels example_fpu example_primme 2 2 2 0 [0, 0] [0, 0] False
           [] 2 0 small_basis_state) = Some 2"
  using restart_not_full_size [where basisSize = 2 and primme = example_primme
      and K = example_kernels and fp = example_fpu and ldH = 2 and ldhVecs = 2 and newldhVecs = 0
      and evals = "[0, 0]" and resNorms = "[0, 0]" and evecsHat = False and previousHVecs = "[]"
      and ldpreviousHVecs = 2 and numArbitraryVecs = 0 and st = small_basis_state
      and st' = "small_basis_state\<lparr>st_hVecs := [0, 1, 1, 0], st_H := [3, 0, 0, 1],
                   st_iwork := [1, 0, 1, 0], st_ievSize := 0, st_restartSizeOutput := 2\<rparr>"]
  by (simp add: small_run) (simp add: example_primme_def small_basis_state_def)

subsection \<open>What becomes of a failed projection restart\<close>

lemma full_select_size:
  "restart_select_size fp full_basis_primme 3 full_basis_state = (1, full_basis_state)"
  by (simp add: restart_select_size_def full_basis_primme_def example_primme_def
      full_basis_state_def)

lemma full_primme_fields:
  "\<not> locking full_basis_primme" "target full_basis_primme = primme_smallest"
  "projection full_basis_primme = primme_proj_RR"
  by (simp_all add: full_basis_primme_def example_primme_def)

lemma failing_solve_fields:
  "k_ortho failing_solve_kernels = k_ortho example_kernels"
  "k_update_VWXR failing_solve_kernels = 0"
  "k_compute_submatrix failing_solve_kernels = compute_submatrix_exact"
  "k_solve_H failing_solve_kernels = (\<lambda>H hoff n ldH hVecs voff ldhVecs hVals valoff.
                                        (- 1, hVecs, hVals))"
  by (simp_all add: failing_solve_kernels_def example_kernels_def)

lemma failing_UDU_fields:
  "k_ortho failing_UDU_kernels = k_ortho example_kernels"
  "k_update_VWXR failing_UDU_kernels = 0"
  "k_compute_submatrix failing_UDU_kernels = compute_submatrix_exact"
  "k_solve_H failing_UDU_kernels = solve_H_diagonal"
  "k_UDUDecompose failing_UDU_kernels = - 1"
  by (simp_all add: failing_UDU_kernels_def example_kernels_def)

lemma example_fields:
  "k_compute_submatrix example_kernels = compute_submatrix_exact"
  "k_solve_H example_kernels = solve_H_diagonal"
  "k_UDUDecompose example_kernels = 0"
  by (simp_all add: example_kernels_def)

lemma full_locked_fields:
  "st_H full_basis_locked = [1, 0, 0, 0, 2, 0, 0, 0, 3]"
  "st_hVecs full_basis_locked = [0, 1, 0, 1, 0, 0, 0, 0, 1]"
  "st_hVals full_basis_locked = [2, 1, 3]"
  "st_iwork full_basis_locked = [1, 0, 2, 1, 0, 2]"
  "st_numPrevRetained full_basis_locked = 1"
  "st_numConverged full_basis_locked = 0"
  by (simp_all add: full_basis_locked_def full_basis_state_def)

lemma full_RR_arrays:
  "compute_submatrix_exact [0, 1, 0, 1, 0, 0, 0, 0, 1] 0 1 3
     [1, 0, 0, 0, 2, 0, 0, 0, 3] 3 3 0 3 = [2, 0, 0, 0, 2, 0, 0, 0, 3]"
  "restart_RR_H [2, 0, 0, 0, 2, 0, 0, 0, 3::real] 3 [2, 1, 3] 2 1 0 = [2, 0, 0, 0, 1, 0, 0, 0, 3]"
  "restart_RR_hVecs [0, 1, 0, 1, 0, 0, 0, 0, 1::real] 2 2 (\<lambda>i. rd [1, 0, 2, 1, 0, 2] (3 + int i))
     = [0, 1, 1, 0, 0, 0, 0, 0, 1]"
  "permute_vecs_dprimme [2, 1, 3::real] 1 2 1 (\<lambda>i. rd [1, 0, 2, 1, 0, 2] (3 + int i)) = [1, 2, 3]"
  "orderedIndexOfPreviousVecs 2 0 (\<lambda>i. rd [1, 0, 2, 1, 0, 2] (3 + int i)) = 1"
  "solve_H_diagonal [2, 0, 0, 0, 1, 0, 0, 0, 3] 0 1 3 [0, 1, 1, 0, 0, 0, 0, 0, 1] 3 2 [1, 2, 3] 1
     = (0, [0, 1, 1, 1, 0, 0, 0, 0, 1], [1, 2, 3])"
  by (simp_all add: compute_submatrix_exact_def symmetric_entry_def solve_H_diagonal_def
      restart_RR_H_def restart_RR_hVecs_def permute_vecs_dprimme_def
      orderedIndexOfPreviousVecs_def restart_eval Let_def)

lemma full_RR:
  assumes "k_compute_submatrix K = compute_submatrix_exact" and "k_solve_H K = solve_H_diagonal"
  shows "restart_RR K [1, 0, 0, 0, 2, 0, 0, 0, 3] 3 [0, 1, 0, 1, 0, 0, 0, 0, 1] 3 2
           [2, 1, 3] 2 3 1 0 (\<lambda>i. rd [1, 0, 2, 1, 0, 2] (3 + int i)) =
         Some (0, [2, 0, 0, 0, 1, 0, 0, 0, 3], [0, 1, 1, 1, 0, 0, 0, 0, 1], [1, 2, 3])"
  by (simp add: restart_RR_def Let_def assms full_RR_arrays [simplified])

lemma full_RR_failing:
  "restart_RR failing_solve_kernels [1, 0, 0, 0, 2, 0, 0, 0, 3] 3 [0, 1, 0, 1, 0, 0, 0, 0, 1] 3 2
     [2, 1, 3] 2 3 1 0 (\<lambda>i. rd [1, 0, 2, 1, 0, 2] (3 + int i)) =
   Some (INSERT_SUBMATRIX_FAILURE, [2, 0, 0, 0, 1, 0, 0, 0, 3], [0, 1, 1, 0, 0, 0, 0, 0, 1],
         [1, 2, 3])"
  by (simp add: restart_RR_def Let_def failing_solve_fields full_RR_arrays [simplified]
      INSERT_SUBMATRIX_FAILURE_def)

lemma projection_failing_solve:
  "map_option fst
     (restart_projection_dprimme failing_solve_kernels full_basis_primme 3 3 2 2 3 1 0 False 0 3
        full_basis_locked) = Some RESTART_H_FAILURE"
  by (simp add: restart_projection_dprimme_def full_primme_fields full_locked_fields
      full_RR_failing INSERT_SUBMATRIX_FAILURE_def)

lemma projection_failing_UDU:
  "map_option fst
     (restart_projection_dprimme failing_UDU_kernels full_basis_primme 3 3 2 2 3 1 0 True 0 3
        full_basis_locked) = Some UDUDECOMPOSE_FAILURE"
  by (simp add: restart_projection_dprimme_def full_primme_fields full_locked_fields
      full_RR [OF failing_UDU_fields(3,4)] failing_UDU_fields(5))

text \<open>
  \<^bold>\<open>C1\<close> does not hold of the code: \<^verbatim>\<open>restart_dprimme\<close> calls
  \<^verbatim>\<open>restart_projection_dprimme\<close> as a statement and then returns 0. On the full basis
  below, with a dense eigensolver that fails, the projection restart returns
  \<open>RESTART_H_FAILURE\<close> and the restart returns 0; with a factorisation of \<open>M\<close> that fails,
  the projection restart returns \<open>UDUDECOMPOSE_FAILURE\<close> and the restart returns 0.
\<close>

theorem restart_drops_projection_failure:
  "map_option fst
     (restart_projection_dprimme failing_solve_kernels full_basis_primme 3 3 2 2 3 1 0 False 0 3
        full_basis_locked) = Some RESTART_H_FAILURE
   \<and> map_option fst
       (restart_dprimme failing_solve_kernels example_fpu full_basis_primme 3 3 3 0 [0] [0]
          False [0, 1, 0] 3 0 full_basis_state) = Some 0
   \<and> map_option fst
       (restart_projection_dprimme failing_UDU_kernels full_basis_primme 3 3 2 2 3 1 0 True 0 3
          full_basis_locked) = Some UDUDECOMPOSE_FAILURE
   \<and> map_option fst
       (restart_dprimme failing_UDU_kernels example_fpu full_basis_primme 3 3 3 0 [0] [0]
          True [0, 1, 0] 3 0 full_basis_state) = Some 0
   \<and> RESTART_H_FAILURE \<noteq> 0 \<and> UDUDECOMPOSE_FAILURE \<noteq> 0"
proof -
  note a = restart_after_soft_locking [OF full_primme_fields(1,2) full_select_size
      full_soft_locking [OF failing_solve_fields(1,2)], of example_fpu 3 0 False]
  note b = restart_after_soft_locking [OF full_primme_fields(1,2) full_select_size
      full_soft_locking [OF failing_UDU_fields(1,2)], of example_fpu 3 0 True]
  have c: "map_option fst
       (restart_dprimme failing_solve_kernels example_fpu full_basis_primme 3 3 3 0 [0] [0]
          False [0, 1, 0] 3 0 full_basis_state) = Some 0"
    using projection_failing_solve
    by (auto simp: a full_locked_fields option.map_comp comp_def)
  have d: "map_option fst
       (restart_dprimme failing_UDU_kernels example_fpu full_basis_primme 3 3 3 0 [0] [0]
          True [0, 1, 0] 3 0 full_basis_state) = Some 0"
    using projection_failing_UDU
    by (auto simp: b full_locked_fields option.map_comp comp_def)
  show ?thesis
    by (simp add: c d projection_failing_solve projection_failing_UDU)
      (simp add: RESTART_H_FAILURE_def UDUDECOMPOSE_FAILURE_def)
qed

subsection \<open>The eigenpairs after a Rayleigh-Ritz projection restart\<close>

lemma full_run:
  "restart_dprimme example_kernels example_fpu full_basis_primme 3 3 3 0 [0] [0] False
     [0, 1, 0] 3 0 full_basis_state =
   Some (0, full_basis_locked\<lparr>st_H := [2, 0, 0, 0, 1, 0, 0, 0, 3],
              st_hVecs := [0, 1, 1, 1, 0, 0, 0, 0, 1], st_hVals := [1, 2, 3],
              st_restartSizeOutput := 2\<rparr>)"
proof -
  have p: "restart_projection_dprimme example_kernels full_basis_primme 3 3 2 2 3 1 0 False 0 3
             full_basis_locked =
           Some (0, full_basis_locked\<lparr>st_H := [2, 0, 0, 0, 1, 0, 0, 0, 3],
                      st_hVecs := [0, 1, 1, 1, 0, 0, 0, 0, 1], st_hVals := [1, 2, 3]\<rparr>)"
    by (simp add: restart_projection_dprimme_def full_primme_fields full_locked_fields
        full_RR [OF example_fields(1,2)])
  show ?thesis
    unfolding restart_after_soft_locking [OF full_primme_fields(1,2) full_select_size
        full_soft_locking_example]
    by (simp add: full_locked_fields p)
qed

text \<open>
  \<^bold>\<open>C3\<close> does not hold of the code. \<^verbatim>\<open>restart_RR\<close> hands the dense eigensolver the
  block of \<open>hVecs\<close> at row and column \<open>orderedIndexOfPreviousVecs\<close>, while the rows of
  the retained vectors in the new basis start at \<open>indexOfPreviousVecs\<close>. On a full basis
  of 3 with \<open>H = diag(1, 2, 3)\<close>, nothing converged and one retained vector, the
  soft-locking restart gives \<open>indexOfPreviousVecs = 0\<close> and \<open>hVecsPerm = 1, 0, 2\<close>, hence
  \<open>orderedIndexOfPreviousVecs = 1\<close>. The new \<open>H\<close> is \<open>diag(2, 1)\<close>; the second
  coefficient vector comes out as \<open>(1, 1)\<close> with Ritz value 2, and \<open>H (1, 1) = (2, 1)\<close>.
  With the eigenvector in row \<open>indexOfPreviousVecs\<close> the vector would be \<open>(1, 0)\<close> and
  the pairs would diagonalise \<open>H\<close>.
\<close>

theorem restart_RR_misplaces_eigenvectors:
  "restart_soft_locking_dprimme example_kernels full_basis_primme 1 3 3 [0] [0] False [0, 1, 0]
     3 0 0 3 full_basis_state = Some (0, 2, 0, full_basis_locked)
   \<and> restart_RR example_kernels (st_H full_basis_locked) 3 (st_hVecs full_basis_locked) 3 2
       (st_hVals full_basis_locked) 2 3 1 0 (\<lambda>i. rd (st_iwork full_basis_locked) (3 + int i)) =
     Some (0, [2, 0, 0, 0, 1, 0, 0, 0, 3], [0, 1, 1, 1, 0, 0, 0, 0, 1], [1, 2, 3])
   \<and> map_option (\<lambda>r. st_hVecs (snd r))
       (restart_dprimme example_kernels example_fpu full_basis_primme 3 3 3 0 [0] [0] False
          [0, 1, 0] 3 0 full_basis_state) = Some [0, 1, 1, 1, 0, 0, 0, 0, 1]
   \<and> \<not> diagonalises [2, 0, 0, 0, 1, 0, 0, 0, 3::real] 3 [1, 2, 3] [0, 1, 1, 1, 0, 0, 0, 0, 1] 2 2
   \<and> diagonalises [2, 0, 0, 0, 1, 0, 0, 0, 3::real] 3 [1, 2, 3] [0, 1, 1, 0, 0, 0, 0, 0, 1] 2 2"
proof -
  have b: "\<not> diagonalises [2, 0, 0, 0, 1, 0, 0, 0, 3::real] 3 [1, 2, 3]
               [0, 1, 1, 1, 0, 0, 0, 0, 1] 2 2"
    by (simp add: diagonalises_def symmetric_entry_def restart_eval)
  have c: "diagonalises [2, 0, 0, 0, 1, 0, 0, 0, 3::real] 3 [1, 2, 3]
             [0, 1, 1, 0, 0, 0, 0, 0, 1] 2 2"
    by (simp add: diagonalises_def symmetric_entry_def restart_eval)
  show ?thesis
    using b c
    by (simp add: full_soft_locking_example full_run full_locked_fields
        full_RR [OF example_fields(1,2)])
qed

end
